theory Spec2Isabelle
  imports Main
begin

section \<open>Data model (auth\_app/models.py)\<close>

text \<open>
  Timestamps are microseconds on the server clock (the resolution of a Python datetime);
  a timedelta is a number of microseconds. Every request reads the clock once: the
  parameter \<open>now\<close> stands for \<open>timezone.now()\<close> during that request.
\<close>

type_synonym timestamp = int

definition timedelta_minutes :: "int \<Rightarrow> int" where
  "timedelta_minutes m = m * 60000000"

definition timedelta_seconds :: "int \<Rightarrow> int" where
  "timedelta_seconds s = s * 1000000"

text \<open>The rows of \<open>auth_user\<close> (Django's User), with the columns the views read or write.
  The password column is an opaque credential: \<open>check_password\<close> is equality on it.\<close>

record account =
  username :: string
  email :: string
  first_name :: string
  last_name :: string
  password :: string
  is_staff :: bool
  is_superuser :: bool
  is_active :: bool

text \<open>UserProfile: one-to-one with a user, keyed by the user's primary key.\<close>

record user_profile =
  user_id :: nat
  is_email_verified :: bool
  is_admin_user :: bool
  last_login_ip :: "string option"
  login_count :: int

text \<open>OTPRecord.\<close>

record otp_record =
  otp_email :: string
  otp_code :: string
  purpose :: string
  is_verified :: bool
  attempts :: int
  max_attempts :: int
  created_at :: timestamp
  expires_at :: timestamp
  verified_at :: "timestamp option"
  ip_address :: "string option"
  temp_username :: "string option"
  temp_first_name :: "string option"
  temp_last_name :: "string option"

text \<open>LoginAttempt.\<close>

record login_attempt =
  username_or_email :: string
  attempt_ip :: string
  success :: bool
  failure_reason :: "string option"
  attempted_at :: timestamp
  user_agent :: string

text \<open>
  The database: one list per table, in insertion order. The primary key of a row is its
  position in the list, so \<open>save()\<close> of an object loaded from row \<open>pk\<close> writes row \<open>pk\<close>.
\<close>

record store =
  users :: "account list"
  profiles :: "user_profile list"
  otps :: "otp_record list"
  login_attempts :: "login_attempt list"

section \<open>Querysets\<close>

text \<open>\<open>filter(...)\<close>: the matching rows with their primary keys, in table order.\<close>

definition objects_filter :: "('a \<Rightarrow> bool) \<Rightarrow> 'a list \<Rightarrow> (nat \<times> 'a) list" where
  "objects_filter P rows = filter (\<lambda>(pk, r). P r) (zip [0..<length rows] rows)"

text \<open>\<open>.first()\<close> on a queryset.\<close>

definition first :: "'b list \<Rightarrow> 'b option" where
  "first q = (case q of [] \<Rightarrow> None | x # _ \<Rightarrow> Some x)"

text \<open>
  \<open>order_by(...).first()\<close>: the row that no other row precedes in the requested order.
  \<open>precedes a b\<close> says that row \<open>a\<close> sorts strictly before row \<open>b\<close>; among rows the order
  does not separate, the one with the smallest primary key is taken.
\<close>

fun order_by_first :: "('a \<Rightarrow> 'a \<Rightarrow> bool) \<Rightarrow> (nat \<times> 'a) list \<Rightarrow> (nat \<times> 'a) option" where
  "order_by_first precedes [] = None"
| "order_by_first precedes (x # q) =
     (case order_by_first precedes q of
        None \<Rightarrow> Some x
      | Some y \<Rightarrow> if precedes (snd y) (snd x) then Some y else Some x)"

text \<open>\<open>order_by('-created_at')\<close>, also the default ordering of OTPRecord querysets.\<close>

definition created_desc :: "otp_record \<Rightarrow> otp_record \<Rightarrow> bool" where
  "created_desc a b = (created_at a > created_at b)"

text \<open>
  \<open>order_by('-verified_at')\<close>. The column is nullable, and where NULL goes in a descending
  sort depends on the database (first on PostgreSQL, last on SQLite and MySQL):
  \<open>nulls_first\<close> is that choice.
\<close>

definition verified_desc :: "bool \<Rightarrow> otp_record \<Rightarrow> otp_record \<Rightarrow> bool" where
  "verified_desc nulls_first a b =
     (case (verified_at a, verified_at b) of
        (None, None) \<Rightarrow> False
      | (None, Some t) \<Rightarrow> nulls_first
      | (Some s, None) \<Rightarrow> \<not> nulls_first
      | (Some s, Some t) \<Rightarrow> s > t)"

section \<open>The verification ledger: OTPRecord\<close>

definition is_expired :: "timestamp \<Rightarrow> otp_record \<Rightarrow> bool" where
  "is_expired now self = (now > expires_at self)"

definition is_valid :: "timestamp \<Rightarrow> otp_record \<Rightarrow> bool" where
  "is_valid now self =
     (\<not> is_verified self \<and> \<not> is_expired now self \<and> attempts self < max_attempts self)"

text \<open>\<open>self.save()\<close> of the object loaded from row \<open>pk\<close>.\<close>

definition save_otp :: "nat \<Rightarrow> otp_record \<Rightarrow> store \<Rightarrow> store" where
  "save_otp pk self db = db\<lparr>otps := (otps db)[pk := self]\<rparr>"

text \<open>
  The messages \<open>verify\<close> returns: "OTP expired or maximum attempts reached",
  "OTP verified successfully", and "Invalid OTP. n attempts remaining" with its number.
\<close>

datatype verify_message = ExpiredOrMaxAttempts | VerifiedSuccessfully | InvalidOTP int

text \<open>
  \<open>OTPRecord.verify\<close> on the object loaded from row \<open>pk\<close>. The counter is incremented on
  the object in memory; the row changes only where the source calls \<open>save()\<close>.
\<close>

definition verify :: "timestamp \<Rightarrow> nat \<Rightarrow> otp_record \<Rightarrow> string \<Rightarrow> store
    \<Rightarrow> (bool \<times> verify_message) \<times> store" where
  "verify now pk self0 code db =
     (let self = self0\<lparr>attempts := attempts self0 + 1\<rparr> in
      if \<not> is_valid now self then ((False, ExpiredOrMaxAttempts), db)
      else if otp_code self = code then
        (let self = self\<lparr>is_verified := True, verified_at := Some now\<rparr>
         in ((True, VerifiedSuccessfully), save_otp pk self db))
      else
        (let db = save_otp pk self db;
             remaining = max_attempts self - attempts self
         in ((False, InvalidOTP remaining), db)))"

text \<open>
  \<open>**extra_data\<close> of \<open>create_otp\<close>: every caller passes the three staged fields and the
  source IP.
\<close>

record extra_data =
  x_temp_username :: "string option"
  x_temp_first_name :: "string option"
  x_temp_last_name :: "string option"
  x_ip_address :: "string option"

text \<open>
  \<open>OTPRecord.create_otp\<close>. \<open>code\<close> is the value \<open>generate_otp()\<close> draws (six random
  digits). Returns the primary key of the new row.
\<close>

definition create_otp :: "timestamp \<Rightarrow> string \<Rightarrow> string \<Rightarrow> string \<Rightarrow> int \<Rightarrow> extra_data
    \<Rightarrow> store \<Rightarrow> (nat \<times> otp_record) \<times> store" where
  "create_otp now code em purp validity_minutes extra db =
     (let rows = map (\<lambda>r. if otp_email r = em \<and> purpose r = purp \<and> is_verified r = False
                           then r\<lparr>is_verified := True\<rparr> else r) (otps db);
          otp = \<lparr>otp_email = em, otp_code = code, purpose = purp, is_verified = False,
                 attempts = 0, max_attempts = 5, created_at = now,
                 expires_at = now + timedelta_minutes validity_minutes,
                 verified_at = None, ip_address = x_ip_address extra,
                 temp_username = x_temp_username extra,
                 temp_first_name = x_temp_first_name extra,
                 temp_last_name = x_temp_last_name extra\<rparr>
      in ((length rows, otp), db\<lparr>otps := rows @ [otp]\<rparr>))"

definition total_seconds :: "int \<Rightarrow> int" where
  "total_seconds delta = (if delta \<ge> 0 then delta div 1000000 else - ((- delta) div 1000000))"

definition get_remaining_time :: "timestamp \<Rightarrow> otp_record \<Rightarrow> int" where
  "get_remaining_time now self =
     (if is_expired now self then 0 else total_seconds (expires_at self - now))"

section \<open>Registration flow: verify\_otp (views.py)\<close>

datatype verify_response =
    NoOTPFound
  | VerifyOk verify_message
  | VerifyFailed verify_message

definition latest_unverified :: "string \<Rightarrow> string \<Rightarrow> store \<Rightarrow> (nat \<times> otp_record) option" where
  "latest_unverified em purp db =
     order_by_first created_desc
       (objects_filter (\<lambda>r. otp_email r = em \<and> purpose r = purp \<and> is_verified r = False) (otps db))"

definition verify_otp :: "timestamp \<Rightarrow> string \<Rightarrow> string \<Rightarrow> string \<Rightarrow> store
    \<Rightarrow> verify_response \<times> store" where
  "verify_otp now em code purp db =
     (case latest_unverified em purp db of
        None \<Rightarrow> (NoOTPFound, db)
      | Some (pk, otp_record) \<Rightarrow>
          (case verify now pk otp_record code db of
             ((True, message), db') \<Rightarrow> (VerifyOk message, db')
           | ((False, message), db') \<Rightarrow> (VerifyFailed message, db')))"


section \<open>Strings\<close>

text \<open>
  A string is a sequence of code points below 256. \<open>str.lower()\<close> maps the capital
  letters of that range (A to Z, and U+00C0 to U+00DE without the multiplication sign) to
  their small letters and leaves every other code point; \<open>str.strip()\<close> removes the code
  points for which \<open>str.isspace()\<close> holds.
\<close>

definition lower_char :: "char \<Rightarrow> char" where
  "lower_char c =
     (case map_of
        (zip (''ABCDEFGHIJKLMNOPQRSTUVWXYZ'' @
              [CHR 0xC0, CHR 0xC1, CHR 0xC2, CHR 0xC3, CHR 0xC4, CHR 0xC5, CHR 0xC6, CHR 0xC7,
              CHR 0xC8, CHR 0xC9, CHR 0xCA, CHR 0xCB, CHR 0xCC, CHR 0xCD, CHR 0xCE, CHR 0xCF,
              CHR 0xD0, CHR 0xD1, CHR 0xD2, CHR 0xD3, CHR 0xD4, CHR 0xD5, CHR 0xD6, CHR 0xD8,
              CHR 0xD9, CHR 0xDA, CHR 0xDB, CHR 0xDC, CHR 0xDD, CHR 0xDE])
             (''abcdefghijklmnopqrstuvwxyz'' @
              [CHR 0xE0, CHR 0xE1, CHR 0xE2, CHR 0xE3, CHR 0xE4, CHR 0xE5, CHR 0xE6, CHR 0xE7,
              CHR 0xE8, CHR 0xE9, CHR 0xEA, CHR 0xEB, CHR 0xEC, CHR 0xED, CHR 0xEE, CHR 0xEF,
              CHR 0xF0, CHR 0xF1, CHR 0xF2, CHR 0xF3, CHR 0xF4, CHR 0xF5, CHR 0xF6, CHR 0xF8,
              CHR 0xF9, CHR 0xFA, CHR 0xFB, CHR 0xFC, CHR 0xFD, CHR 0xFE])) c of
        Some d \<Rightarrow> d
      | None \<Rightarrow> c)"

definition lower :: "string \<Rightarrow> string" where
  "lower s = map lower_char s"

definition is_space :: "char \<Rightarrow> bool" where
  "is_space c = (c \<in> set [CHR '' '', CHR 0x09, CHR 0x0A, CHR 0x0B, CHR 0x0C, CHR 0x0D,
                             CHR 0x1C, CHR 0x1D, CHR 0x1E, CHR 0x1F, CHR 0x85, CHR 0xA0])"

definition strip :: "string \<Rightarrow> string" where
  "strip s = rev (dropWhile is_space (rev (dropWhile is_space s)))"

text \<open>\<open>s.rsplit(sep, 1)\<close> when \<open>sep\<close> occurs in \<open>s\<close>: the text before and after its last occurrence.\<close>

definition rsplit1 :: "char \<Rightarrow> string \<Rightarrow> string \<times> string" where
  "rsplit1 sep s =
     (rev (tl (dropWhile (\<lambda>c. c \<noteq> sep) (rev s))), rev (takeWhile (\<lambda>c. c \<noteq> sep) (rev s)))"

text \<open>\<open>re.search(r'[A-Z]', value)\<close> and its two companions.\<close>

definition has_uppercase :: "string \<Rightarrow> bool" where
  "has_uppercase value = list_ex (\<lambda>c. c \<in> set ''ABCDEFGHIJKLMNOPQRSTUVWXYZ'') value"

definition has_number :: "string \<Rightarrow> bool" where
  "has_number value = list_ex (\<lambda>c. c \<in> set ''0123456789'') value"

definition has_special :: "string \<Rightarrow> bool" where
  "has_special value = list_ex (\<lambda>c. c \<in> set (CHR 0x22 # ''!@#$%^&*(),.?:{}|<>'')) value"

text \<open>
  \<open>mask_email\<close> (utils.py). Any exception inside (an address without exactly one at-sign, a
  domain without a dot, an empty local part or domain name) returns the address unchanged.
\<close>

definition mask_part :: "string \<Rightarrow> string" where
  "mask_part s =
     (if length s \<le> 2 then [hd s, CHR ''*'']
      else hd s # replicate (length s - 2) (CHR ''*'') @ [last s])"

definition mask_email :: "string \<Rightarrow> string" where
  "mask_email em =
     (if length (filter (\<lambda>c. c = CHR ''@'') em) \<noteq> 1 then em
      else
        (let local = takeWhile (\<lambda>c. c \<noteq> CHR ''@'') em;
             domain = tl (dropWhile (\<lambda>c. c \<noteq> CHR ''@'') em)
         in if CHR ''.'' \<notin> set domain then em
            else
              (let (domain_name, domain_ext) = rsplit1 (CHR ''.'') domain
               in if local = [] \<or> domain_name = [] then em
                  else mask_part local @ ''@'' @ mask_part domain_name @ ''.'' @ domain_ext)))"

section \<open>The identity store (django.contrib.auth)\<close>

datatype db_error = ValueError | IntegrityError

text \<open>\<open>BaseUserManager.normalize_email\<close>: the domain part is lowercased.\<close>

definition normalize_email :: "string \<Rightarrow> string" where
  "normalize_email em =
     (if CHR ''@'' \<in> set (strip em)
      then (let (email_name, domain_part) = rsplit1 (CHR ''@'') (strip em)
            in email_name @ ''@'' @ lower domain_part)
      else em)"

text \<open>
  \<open>User.objects.create_user\<close>: a missing or empty username raises ValueError; a NULL name
  or a username already taken violates a column constraint (IntegrityError).
\<close>

definition create_user :: "string option \<Rightarrow> string \<Rightarrow> string option \<Rightarrow> string option \<Rightarrow> string
    \<Rightarrow> store \<Rightarrow> db_error + ((nat \<times> account) \<times> store)" where
  "create_user uname em fname lname pw db =
     (case uname of
        None \<Rightarrow> Inl ValueError
      | Some u \<Rightarrow>
          if u = [] then Inl ValueError
          else (case (fname, lname) of
                  (Some f, Some l) \<Rightarrow>
                    if list_ex (\<lambda>a. username a = u) (users db) then Inl IntegrityError
                    else
                      (let user = \<lparr>username = u, email = normalize_email em, first_name = f,
                                    last_name = l, password = pw, is_staff = False,
                                    is_superuser = False, is_active = True\<rparr>
                       in Inr ((length (users db), user), db\<lparr>users := users db @ [user]\<rparr>))
                | _ \<Rightarrow> Inl IntegrityError))"

text \<open>\<open>UserProfile.objects.create(user=user, is_email_verified=...)\<close>; the user column is unique.\<close>

definition create_profile :: "nat \<Rightarrow> bool \<Rightarrow> store \<Rightarrow> db_error + store" where
  "create_profile uid verified db =
     (if list_ex (\<lambda>p. user_id p = uid) (profiles db) then Inl IntegrityError
      else Inr (db\<lparr>profiles := profiles db @
                  [\<lparr>user_id = uid, is_email_verified = verified, is_admin_user = False,
                    last_login_ip = None, login_count = 0\<rparr>]\<rparr>))"

text \<open>\<open>hasattr(user, 'profile')\<close> and \<open>user.profile\<close>: the profile row of user \<open>uid\<close>, if any.\<close>

definition profile_of :: "nat \<Rightarrow> store \<Rightarrow> (nat \<times> user_profile) option" where
  "profile_of uid db = first (objects_filter (\<lambda>p. user_id p = uid) (profiles db))"

text \<open>\<open>Model.objects.get(...)\<close>.\<close>

datatype 'a get_result = DoesNotExist | MultipleObjectsReturned | Got 'a

definition objects_get :: "('a \<Rightarrow> bool) \<Rightarrow> 'a list \<Rightarrow> (nat \<times> 'a) get_result" where
  "objects_get P rows =
     (case objects_filter P rows of
        [] \<Rightarrow> DoesNotExist
      | [x] \<Rightarrow> Got x
      | _ \<Rightarrow> MultipleObjectsReturned)"

text \<open>
  \<open>authenticate(username=..., password=...)\<close> with the model backend: the user with that
  username, if the password checks and the account is active.
\<close>

definition authenticate :: "string \<Rightarrow> string \<Rightarrow> store \<Rightarrow> (nat \<times> account) option get_result" where
  "authenticate uname pw db =
     (case objects_get (\<lambda>a. username a = uname) (users db) of
        DoesNotExist \<Rightarrow> Got None
      | MultipleObjectsReturned \<Rightarrow> MultipleObjectsReturned
      | Got (pk, user) \<Rightarrow> if password user = pw \<and> is_active user then Got (Some (pk, user)) else Got None)"

section \<open>Registration flow: create\_password\<close>

datatype password_error = PlatformRejected | TooShort | NoUppercase | NoNumber | NoSpecialCharacter

text \<open>
  \<open>validate_password\<close> of both password serializers. \<open>platform_ok\<close> is Django's
  \<open>validate_password\<close> under the project's AUTH\_PASSWORD\_VALIDATORS setting.
\<close>

definition validate_password :: "(string \<Rightarrow> bool) \<Rightarrow> string \<Rightarrow> password_error option" where
  "validate_password platform_ok value =
     (if \<not> platform_ok value then Some PlatformRejected
      else if length value < 8 then Some TooShort
      else if \<not> has_uppercase value then Some NoUppercase
      else if \<not> has_number value then Some NoNumber
      else if \<not> has_special value then Some NoSpecialCharacter
      else None)"

definition latest_verified :: "bool \<Rightarrow> string \<Rightarrow> string \<Rightarrow> store \<Rightarrow> (nat \<times> otp_record) option" where
  "latest_verified nulls_first em purp db =
     order_by_first (verified_desc nulls_first)
       (objects_filter (\<lambda>r. otp_email r = em \<and> purpose r = purp \<and> is_verified r = True) (otps db))"

record password_creation_request =
  pc_email :: string
  pc_password :: string
  pc_confirm_password :: string

datatype register_response =
    PasswordFieldError password_error
  | PasswordsDoNotMatch
  | EmailNotVerifiedError
  | EmailNotVerified
  | RegistrationCompleted string string
  | RegistrationError

text \<open>
  PasswordCreationSerializer: the field validators run first, \<open>validate\<close> only when they
  all pass. The request record holds the three fields as the framework parsed them (a
  well-formed email address, strings with the surrounding whitespace trimmed). The result
  is the validated email and password.
\<close>

definition password_creation_serializer :: "(string \<Rightarrow> bool) \<Rightarrow> bool \<Rightarrow> password_creation_request
    \<Rightarrow> store \<Rightarrow> register_response + (string \<times> string)" where
  "password_creation_serializer platform_ok nulls_first data db =
     (case validate_password platform_ok (pc_password data) of
        Some e \<Rightarrow> Inl (PasswordFieldError e)
      | None \<Rightarrow>
          if pc_password data \<noteq> pc_confirm_password data then Inl PasswordsDoNotMatch
          else (case latest_verified nulls_first (pc_email data) ''registration'' db of
                  None \<Rightarrow> Inl EmailNotVerifiedError
                | Some otp \<Rightarrow> Inr (pc_email data, pc_password data)))"

text \<open>
  The view. Everything after the serializer runs inside \<open>transaction.atomic()\<close>: an
  exception leaves the database as it was before the block.
\<close>

definition create_password :: "(string \<Rightarrow> bool) \<Rightarrow> bool \<Rightarrow> password_creation_request \<Rightarrow> store
    \<Rightarrow> register_response \<times> store" where
  "create_password platform_ok nulls_first request db =
     (case password_creation_serializer platform_ok nulls_first request db of
        Inl errors \<Rightarrow> (errors, db)
      | Inr (em, pw) \<Rightarrow>
          (case latest_verified nulls_first em ''registration'' db of
             None \<Rightarrow> (EmailNotVerified, db)
           | Some (pk, otp_record) \<Rightarrow>
               (case create_user (temp_username otp_record) em (temp_first_name otp_record)
                       (temp_last_name otp_record) pw db of
                  Inl e \<Rightarrow> (RegistrationError, db)
                | Inr ((uid, user), db1) \<Rightarrow>
                    (case create_profile uid True db1 of
                       Inl e \<Rightarrow> (RegistrationError, db)
                     | Inr db2 \<Rightarrow> (RegistrationCompleted (username user) (email user), db2)))))"


section \<open>Password reset flow\<close>

datatype py_exception = TypeError

text \<open>
  \<open>send_otp_to_service(email, otp_code, user_data, purpose='registration')\<close> (utils.py), as
  a call with keyword arguments. Python binds the keywords against the parameter names: a
  keyword that is no parameter, or a parameter without default that gets no argument,
  raises TypeError before the body runs. The body posts to the mail service and catches
  every exception itself; \<open>delivery\<close> is the pair (success, message) it then returns.
\<close>

definition send_otp_to_service :: "string list \<Rightarrow> bool \<times> string \<Rightarrow> py_exception + (bool \<times> string)" where
  "send_otp_to_service keywords delivery =
     (if \<not> set keywords \<subseteq> set [''email'', ''otp_code'', ''user_data'', ''purpose'']
         \<or> \<not> set [''email'', ''otp_code'', ''user_data''] \<subseteq> set keywords
      then Inl TypeError
      else Inr delivery)"

datatype identifier_error = NoAccountFound | AccountEmailNotVerified

text \<open>\<open>User.objects.filter(email=identifier).first()\<close> or, without an at-sign, by username.\<close>

definition find_user :: "string \<Rightarrow> store \<Rightarrow> (nat \<times> account) option" where
  "find_user identifier db =
     (if CHR ''@'' \<in> set identifier
      then first (objects_filter (\<lambda>a. email a = identifier) (users db))
      else first (objects_filter (\<lambda>a. username a = identifier) (users db)))"

text \<open>RequestPasswordResetSerializer.validate\_identifier.\<close>

definition validate_identifier :: "string \<Rightarrow> store \<Rightarrow> identifier_error + string" where
  "validate_identifier value db =
     (let identifier = strip (lower value) in
      case find_user identifier db of
        None \<Rightarrow> Inl NoAccountFound
      | Some (uid, user) \<Rightarrow>
          (case profile_of uid db of
             None \<Rightarrow> Inl AccountEmailNotVerified
           | Some (ppk, profile) \<Rightarrow>
               if \<not> is_email_verified profile then Inl AccountEmailNotVerified
               else Inr identifier))"

datatype reset_request_response =
    IdentifierError identifier_error
  | NoAccountWithIdentifier
  | PleaseWait int
  | FailedToSendEmail
  | ResetOTPSent string int
  | ResetRequestError

text \<open>
  \<open>request_password_reset\<close>. The whole body is inside \<open>try ... except Exception\<close>, which
  answers every exception with the generic error; rows written before the exception stay.
  \<open>email_sent\<close> is what \<open>send_otp_to_service\<close> returns, a pair, and a pair is never
  falsy: \<open>not email_sent\<close> is False.
\<close>

definition request_password_reset :: "timestamp \<Rightarrow> string \<Rightarrow> string option \<Rightarrow> bool \<times> string
    \<Rightarrow> string \<Rightarrow> store \<Rightarrow> reset_request_response \<times> store" where
  "request_password_reset now code client_ip delivery value db =
     (case validate_identifier value db of
        Inl e \<Rightarrow> (IdentifierError e, db)
      | Inr validated \<Rightarrow>
          (let identifier = strip (lower validated) in
           case find_user identifier db of
             None \<Rightarrow> (NoAccountWithIdentifier, db)
           | Some (uid, user) \<Rightarrow>
               (let em = email user;
                    recent_otp = order_by_first created_desc (objects_filter
                       (\<lambda>r. otp_email r = em \<and> purpose r = ''password_reset''
                            \<and> created_at r \<ge> now - timedelta_seconds 30) (otps db))
                in case recent_otp of
                     Some (rpk, recent) \<Rightarrow>
                       (PleaseWait (30 - total_seconds (now - created_at recent)), db)
                   | None \<Rightarrow>
                       (let ((pk, otp_record), db1) =
                              create_otp now code em ''password_reset'' 10
                                \<lparr>x_temp_username = Some (username user),
                                 x_temp_first_name = Some (first_name user),
                                 x_temp_last_name = Some (last_name user),
                                 x_ip_address = client_ip\<rparr> db
                        in case send_otp_to_service
                                  [''email'', ''otp'', ''first_name'', ''last_name'', ''purpose'']
                                  delivery of
                             Inl exn \<Rightarrow> (ResetRequestError, db1)
                           | Inr email_sent \<Rightarrow>
                               if False then (FailedToSendEmail, db1)
                               else (ResetOTPSent (mask_email em)
                                       (get_remaining_time now otp_record), db1)))))"

datatype reset_verify_response =
    NoResetRequestFound
  | OTPHasExpired
  | MaximumAttemptsExceeded
  | ResetOTPVerified
  | ResetVerifyFailed verify_message

definition verify_reset_otp :: "timestamp \<Rightarrow> string \<Rightarrow> string \<Rightarrow> store
    \<Rightarrow> reset_verify_response \<times> store" where
  "verify_reset_otp now em0 code db =
     (let em = lower em0 in
      case latest_unverified em ''password_reset'' db of
        None \<Rightarrow> (NoResetRequestFound, db)
      | Some (pk, otp_record) \<Rightarrow>
          if is_expired now otp_record then (OTPHasExpired, db)
          else if attempts otp_record \<ge> max_attempts otp_record then (MaximumAttemptsExceeded, db)
          else (case verify now pk otp_record code db of
                  ((True, message), db') \<Rightarrow> (ResetOTPVerified, db')
                | ((False, message), db') \<Rightarrow> (ResetVerifyFailed message, db')))"

record reset_password_request =
  rp_email :: string
  rp_new_password :: string
  rp_confirm_password :: string

datatype reset_response =
    NewPasswordFieldError password_error
  | ResetPasswordsDoNotMatch
  | ResetNotVerifiedError
  | ResetSessionExpired
  | ResetNotVerified
  | UserNotFound
  | PasswordResetSuccessfully
  | ResetError

text \<open>
  ResetPasswordSerializer. The result is a response (a validation failure), an exception
  (the subtraction \<open>timezone.now() - otp.verified_at\<close> with \<open>verified_at\<close> NULL), or the
  validated email and password.
\<close>

definition reset_password_serializer :: "(string \<Rightarrow> bool) \<Rightarrow> bool \<Rightarrow> timestamp
    \<Rightarrow> reset_password_request \<Rightarrow> store \<Rightarrow> (reset_response + py_exception) + (string \<times> string)" where
  "reset_password_serializer platform_ok nulls_first now data db =
     (case validate_password platform_ok (rp_new_password data) of
        Some e \<Rightarrow> Inl (Inl (NewPasswordFieldError e))
      | None \<Rightarrow>
          if rp_new_password data \<noteq> rp_confirm_password data then Inl (Inl ResetPasswordsDoNotMatch)
          else (case latest_verified nulls_first (rp_email data) ''password_reset'' db of
                  None \<Rightarrow> Inl (Inl ResetNotVerifiedError)
                | Some (pk, otp) \<Rightarrow>
                    (case verified_at otp of
                       None \<Rightarrow> Inl (Inr TypeError)
                     | Some t \<Rightarrow>
                         if now - t > timedelta_minutes 15 then Inl (Inl ResetSessionExpired)
                         else Inr (rp_email data, rp_new_password data))))"

text \<open>\<open>user.set_password(new_password); user.save()\<close> for the user in row \<open>uid\<close>.\<close>

definition set_password :: "nat \<Rightarrow> string \<Rightarrow> store \<Rightarrow> store" where
  "set_password uid new_password db =
     db\<lparr>users := (users db)[uid := (users db ! uid)\<lparr>password := new_password\<rparr>]\<rparr>"

text \<open>\<open>OTPRecord.objects.filter(email=email, purpose='password_reset').update(is_verified=True)\<close>.\<close>

definition invalidate_reset_otps :: "string \<Rightarrow> store \<Rightarrow> store" where
  "invalidate_reset_otps em db =
     db\<lparr>otps := map (\<lambda>r. if otp_email r = em \<and> purpose r = ''password_reset''
                          then r\<lparr>is_verified := True\<rparr> else r) (otps db)\<rparr>"

definition reset_password :: "(string \<Rightarrow> bool) \<Rightarrow> bool \<Rightarrow> timestamp \<Rightarrow> reset_password_request
    \<Rightarrow> store \<Rightarrow> reset_response \<times> store" where
  "reset_password platform_ok nulls_first now request db =
     (case reset_password_serializer platform_ok nulls_first now request db of
        Inl (Inl errors) \<Rightarrow> (errors, db)
      | Inl (Inr exn) \<Rightarrow> (ResetError, db)
      | Inr (validated_email, new_password) \<Rightarrow>
          (let em = lower validated_email in
           case latest_verified nulls_first em ''password_reset'' db of
             None \<Rightarrow> (ResetNotVerified, db)
           | Some (pk, otp_record) \<Rightarrow>
               (case first (objects_filter (\<lambda>a. email a = em) (users db)) of
                  None \<Rightarrow> (UserNotFound, db)
                | Some (uid, user) \<Rightarrow>
                    (PasswordResetSuccessfully,
                     invalidate_reset_otps em (set_password uid new_password db)))))"

section \<open>Rate limiter and user login\<close>

text \<open>
  The address columns are GenericIPAddressFields. Writing a row and looking one up both
  pass the address text through the field's \<open>get_prep_value\<close>, which hands a text with a
  colon to \<open>clean_ipv6_address\<close> and keeps the text when that raises ValidationError, and
  then through the database's \<open>adapt_ipaddressfield_value\<close>, which turns the empty text
  into NULL. \<open>clean_ipv6_address\<close> is Django's canonical spelling of an IPv6 address
  (None where it raises); it is a parameter of everything that touches such a column.
\<close>

definition get_prep_value :: "(string \<Rightarrow> string option) \<Rightarrow> string \<Rightarrow> string" where
  "get_prep_value clean_ipv6_address value =
     (if value \<noteq> [] \<and> CHR '':'' \<in> set value
      then (case clean_ipv6_address value of Some canonical \<Rightarrow> canonical | None \<Rightarrow> value)
      else value)"

definition adapt_ipaddressfield_value :: "string \<Rightarrow> string option" where
  "adapt_ipaddressfield_value value = (if value = [] then None else Some value)"

text \<open>
  \<open>LoginAttempt.is_rate_limited\<close>, with its two defaulted parameters explicit. A stored
  address is never NULL, so a lookup for the empty text matches no row.
\<close>

definition is_rate_limited :: "(string \<Rightarrow> string option) \<Rightarrow> timestamp \<Rightarrow> string \<Rightarrow> string
    \<Rightarrow> int \<Rightarrow> int \<Rightarrow> store \<Rightarrow> bool" where
  "is_rate_limited clean_ipv6_address now identifier ip max_att time_window_minutes db =
     (let time_threshold = now - timedelta_minutes time_window_minutes;
          ip_attempts = int (length (objects_filter
             (\<lambda>a. Some (attempt_ip a)
                    = adapt_ipaddressfield_value (get_prep_value clean_ipv6_address ip)
                  \<and> success a = False \<and> attempted_at a \<ge> time_threshold)
             (login_attempts db)));
          user_attempts = int (length (objects_filter
             (\<lambda>a. username_or_email a = identifier \<and> success a = False
                  \<and> attempted_at a \<ge> time_threshold)
             (login_attempts db)))
      in ip_attempts \<ge> max_att \<or> user_attempts \<ge> max_att)"

text \<open>
  \<open>LoginAttempt.objects.create(...)\<close>; \<open>attempted_at\<close> is set on insertion. The address
  column is not nullable: an empty address text violates the constraint.
\<close>

definition create_login_attempt :: "(string \<Rightarrow> string option) \<Rightarrow> timestamp \<Rightarrow> string \<Rightarrow> string
    \<Rightarrow> bool \<Rightarrow> string option \<Rightarrow> string \<Rightarrow> store \<Rightarrow> db_error + store" where
  "create_login_attempt clean_ipv6_address now identifier ip ok reason agent db =
     (case adapt_ipaddressfield_value (get_prep_value clean_ipv6_address ip) of
        None \<Rightarrow> Inl IntegrityError
      | Some stored \<Rightarrow>
          Inr (db\<lparr>login_attempts := login_attempts db @
                 [\<lparr>username_or_email = identifier, attempt_ip = stored, success = ok,
                   failure_reason = reason, attempted_at = now, user_agent = agent\<rparr>]\<rparr>))"

text \<open>
  \<open>self.save(update_fields=[...])\<close> of the profile object loaded from row \<open>pk\<close>: only the
  named columns of the row are written.
\<close>

definition save_profile :: "string list \<Rightarrow> nat \<Rightarrow> user_profile \<Rightarrow> store \<Rightarrow> store" where
  "save_profile update_fields pk self db =
     (let row = profiles db ! pk;
          row' = row\<lparr>
            is_email_verified := (if ''is_email_verified'' \<in> set update_fields
                                  then is_email_verified self else is_email_verified row),
            is_admin_user := (if ''is_admin_user'' \<in> set update_fields
                              then is_admin_user self else is_admin_user row),
            last_login_ip := (if ''last_login_ip'' \<in> set update_fields
                              then last_login_ip self else last_login_ip row),
            login_count := (if ''login_count'' \<in> set update_fields
                            then login_count self else login_count row)\<rparr>
      in db\<lparr>profiles := (profiles db)[pk := row']\<rparr>)"

text \<open>\<open>UserProfile.increment_login_count\<close>: the updated object and the database.\<close>

definition increment_login_count :: "nat \<Rightarrow> user_profile \<Rightarrow> store \<Rightarrow> user_profile \<times> store" where
  "increment_login_count pk self0 db =
     (let self = self0\<lparr>login_count := login_count self0 + 1\<rparr>
      in (self, save_profile [''login_count''] pk self db))"

text \<open>
  \<open>generate_jwt_tokens\<close> (utils.py): the claims of the refresh token, which the access token
  copies. The signature and the encoding of the tokens belong to the JWT library.
\<close>

record token_claims =
  claim_user_id :: nat
  claim_username :: string
  claim_email :: string
  claim_is_admin :: bool

record token_pair =
  refresh :: token_claims
  access :: token_claims

definition generate_jwt_tokens :: "nat \<Rightarrow> account \<Rightarrow> user_profile option \<Rightarrow> token_pair" where
  "generate_jwt_tokens uid user profile =
     (let claims = \<lparr>claim_user_id = uid, claim_username = username user,
                     claim_email = email user,
                     claim_is_admin = (case profile of None \<Rightarrow> False
                                       | Some p \<Rightarrow> is_admin_user p)\<rparr>
      in \<lparr>refresh = claims, access = claims\<rparr>)"

datatype login_response =
    TooManyAttempts
  | AdminMustUseAdminLogin
  | PleaseVerifyEmail
  | LoginSuccessful token_pair
  | InvalidCredentials
  | ServerError

text \<open>
  A view that writes the attempt and then returns its response: when the insert raises,
  nothing catches the exception and the request is answered with a server error; what was
  written before stays.
\<close>

definition respond_after :: "db_error + store \<Rightarrow> login_response \<Rightarrow> store
    \<Rightarrow> login_response \<times> store" where
  "respond_after created response before =
     (case created of Inl e \<Rightarrow> (ServerError, before) | Inr db \<Rightarrow> (response, db))"

text \<open>
  \<open>user_login\<close>. The request is the validated data of UserLoginSerializer (which only
  requires both fields; \<open>remember_me\<close> is read and never used), the caller's IP as
  \<open>get_client_ip\<close> returns it and the user agent. \<open>User.objects.get\<close> and
  \<open>authenticate\<close> are not inside any \<open>try\<close> for MultipleObjectsReturned, which surfaces
  as a server error. The response also carries the serialized user, which no property
  below depends on.
\<close>

definition user_login :: "(string \<Rightarrow> string option) \<Rightarrow> timestamp \<Rightarrow> string \<Rightarrow> string \<Rightarrow> string
    \<Rightarrow> string \<Rightarrow> store \<Rightarrow> login_response \<times> store" where
  "user_login clean_ipv6_address now ip agent identifier pw db =
     (if is_rate_limited clean_ipv6_address now identifier ip 5 15 db then (TooManyAttempts, db)
      else
        (let invalid = respond_after
               (create_login_attempt clean_ipv6_address now identifier ip False
                  (Some ''Invalid credentials'') agent db)
               InvalidCredentials db
         in case (if CHR ''@'' \<in> set identifier
                  then objects_get (\<lambda>a. email a = identifier) (users db)
                  else objects_get (\<lambda>a. username a = identifier) (users db)) of
              MultipleObjectsReturned \<Rightarrow> (ServerError, db)
            | DoesNotExist \<Rightarrow> invalid
            | Got (pk0, user) \<Rightarrow>
                (case authenticate (username user) pw db of
                   MultipleObjectsReturned \<Rightarrow> (ServerError, db)
                 | DoesNotExist \<Rightarrow> invalid
                 | Got None \<Rightarrow> invalid
                 | Got (Some (uid, authenticated_user)) \<Rightarrow>
                     (let has_profile = profile_of uid db;
                          is_admin = (is_staff authenticated_user \<or> is_superuser authenticated_user);
                          is_admin = (case has_profile of None \<Rightarrow> is_admin
                                      | Some (ppk, profile) \<Rightarrow> is_admin \<or> is_admin_user profile)
                      in if is_admin then
                           respond_after
                             (create_login_attempt clean_ipv6_address now identifier ip False
                                (Some ''Admin user attempted user login'') agent db)
                             AdminMustUseAdminLogin db
                         else
                           (case has_profile of
                              None \<Rightarrow>
                                respond_after
                                  (create_login_attempt clean_ipv6_address now identifier ip True
                                     None agent db)
                                  (LoginSuccessful (generate_jwt_tokens uid authenticated_user None))
                                  db
                            | Some (ppk, profile) \<Rightarrow>
                                if \<not> is_email_verified profile then
                                  respond_after
                                    (create_login_attempt clean_ipv6_address now identifier ip False
                                       (Some ''Email not verified'') agent db)
                                    PleaseVerifyEmail db
                                else
                                  (let profile = profile\<lparr>last_login_ip := Some ip\<rparr>;
                                       (profile, db1) = increment_login_count ppk profile db
                                   in respond_after
                                        (create_login_attempt clean_ipv6_address now identifier ip
                                           True None agent db1)
                                        (LoginSuccessful
                                           (generate_jwt_tokens uid authenticated_user (Some profile)))
                                        db1))))))"


section \<open>Example states\<close>

definition empty_db :: store where
  "empty_db = \<lparr>users = [], profiles = [], otps = [], login_attempts = []\<rparr>"

definition staged_bob :: extra_data where
  "staged_bob = \<lparr>x_temp_username = Some ''bob'', x_temp_first_name = Some ''Bob'',
                  x_temp_last_name = Some ''Roe'', x_ip_address = Some ''10.0.0.7''\<rparr>"

definition pending_otp :: "string \<Rightarrow> int \<Rightarrow> otp_record" where
  "pending_otp purp n = \<lparr>otp_email = ''a@b.com'', otp_code = ''123456'', purpose = purp,
     is_verified = False, attempts = n, max_attempts = 5, created_at = 0, expires_at = 300000000,
     verified_at = None, ip_address = None, temp_username = Some ''bob'',
     temp_first_name = Some ''Bob'', temp_last_name = Some ''Roe''\<rparr>"


definition signup :: password_creation_request where
  "signup = \<lparr>pc_email = ''a@b.com'', pc_password = ''Abcdef1!'',
              pc_confirm_password = ''Abcdef1!''\<rparr>"

definition any_password :: "string \<Rightarrow> bool" where
  "any_password value = True"

definition alice :: account where
  "alice = \<lparr>username = ''alice'', email = ''a@b.com'', first_name = ''Alice'',
             last_name = ''Doe'', password = ''Secret1!'', is_staff = False,
             is_superuser = False, is_active = True\<rparr>"

definition alice_profile :: user_profile where
  "alice_profile = \<lparr>user_id = 0, is_email_verified = True, is_admin_user = False,
                     last_login_ip = None, login_count = 0\<rparr>"

definition alice_db :: store where
  "alice_db = empty_db\<lparr>users := [alice], profiles := [alice_profile]\<rparr>"

definition alice_reset_otp :: "bool \<Rightarrow> timestamp option \<Rightarrow> otp_record" where
  "alice_reset_otp verified t =
     \<lparr>otp_email = ''a@b.com'', otp_code = ''654321'', purpose = ''password_reset'',
      is_verified = verified, attempts = (if verified then 1 else 0), max_attempts = 5,
      created_at = 1000000, expires_at = 601000000, verified_at = t,
      ip_address = Some ''10.0.0.7'', temp_username = Some ''alice'',
      temp_first_name = Some ''Alice'', temp_last_name = Some ''Doe''\<rparr>"

definition reset_to :: "string \<Rightarrow> reset_password_request" where
  "reset_to pw = \<lparr>rp_email = ''a@b.com'', rp_new_password = pw, rp_confirm_password = pw\<rparr>"

text \<open>The example addresses are IPv4 texts, which \<open>clean_ipv6_address\<close> never sees.\<close>

definition no_ipv6 :: "string \<Rightarrow> string option" where
  "no_ipv6 value = None"

definition failed_attempt :: "string \<Rightarrow> string \<Rightarrow> timestamp \<Rightarrow> login_attempt" where
  "failed_attempt identifier ip t =
     \<lparr>username_or_email = identifier, attempt_ip = ip, success = False,
      failure_reason = Some ''Invalid credentials'', attempted_at = t, user_agent = ''agent''\<rparr>"

definition five_failures :: "login_attempt list" where
  "five_failures = map (failed_attempt ''mallory'' ''10.0.0.9'')
                     [1000000, 2000000, 3000000, 4000000, 5000000]"

definition blocked_db :: store where
  "blocked_db = alice_db\<lparr>login_attempts := five_failures\<rparr>"

section \<open>Querysets: basic facts\<close>

lemma order_by_first_mem: "order_by_first b q = Some x \<Longrightarrow> x \<in> set q"
  by (induction q arbitrary: x) (auto split: option.splits if_splits)

lemma order_by_first_None: "order_by_first b q = None \<longleftrightarrow> q = []"
  by (cases q) (auto split: option.splits)

lemma objects_filter_mem:
  "(pk, r) \<in> set (objects_filter P rows) \<longleftrightarrow> pk < length rows \<and> rows ! pk = r \<and> P r"
  unfolding objects_filter_def by (auto simp: set_zip intro: exI[of _ pk])

lemma map_snd_objects_filter: "map snd (objects_filter P rows) = filter P rows"
proof -
  have "filter P rows = filter P (map snd (zip [0..<length rows] rows))" by simp
  also have "\<dots> = map snd (filter (P \<circ> snd) (zip [0..<length rows] rows))"
    by (simp only: filter_map)
  also have "(P \<circ> snd) = (\<lambda>(pk :: nat, r). P r)" by (auto simp: fun_eq_iff)
  finally show ?thesis unfolding objects_filter_def by simp
qed

lemma length_objects_filter: "length (objects_filter P rows) = length (filter P rows)"
  using map_snd_objects_filter [of P rows] by (metis length_map)


lemma objects_filter_empty: "(\<And>r. r \<in> set rows \<Longrightarrow> \<not> P r) \<Longrightarrow> objects_filter P rows = []"
  unfolding objects_filter_def by (auto simp: filter_empty_conv dest: set_zip_rightD)
lemma objects_filter_append:
  "objects_filter P (rows @ [r]) = objects_filter P rows @ (if P r then [(length rows, r)] else [])"
  unfolding objects_filter_def by simp

section \<open>Issue and supersede\<close>

lemma create_otp_result:
  assumes "create_otp now code em purp v x db = ((pk, otp), db')"
  shows "pk = length (otps db)"
    and "otps db' = map (\<lambda>r. if otp_email r = em \<and> purpose r = purp \<and> is_verified r = False
               then r\<lparr>is_verified := True\<rparr> else r) (otps db) @ [otp]"
    and "otp_email otp = em" and "purpose otp = purp" and "\<not> is_verified otp"
    and "otp_code otp = code" and "attempts otp = 0" and "max_attempts otp = 5"
    and "expires_at otp = now + timedelta_minutes v" and "created_at otp = now"
    and "users db' = users db" and "profiles db' = profiles db"
    and "login_attempts db' = login_attempts db"
  using assms by (auto simp: create_otp_def Let_def)

lemma live_is_unverified:
  "length (filter (\<lambda>r. otp_email r = em \<and> purpose r = purp \<and> is_valid t r) rows)
    \<le> length (filter (\<lambda>r. otp_email r = em \<and> purpose r = purp \<and> is_verified r = False) rows)"
  by (induction rows) (auto simp: is_valid_def)

lemma superseded_filter:
  "filter (\<lambda>r. otp_email r = em \<and> purpose r = purp \<and> is_verified r = False)
     (map (\<lambda>r. if otp_email r = em \<and> purpose r = purp \<and> is_verified r = False
               then r\<lparr>is_verified := True\<rparr> else r) rows) = []"
  by (induction rows) simp_all

lemma superseded_none_unverified:
  "objects_filter (\<lambda>r. otp_email r = em \<and> purpose r = purp \<and> is_verified r = False)
     (map (\<lambda>r. if otp_email r = em \<and> purpose r = purp \<and> is_verified r = False
               then r\<lparr>is_verified := True\<rparr> else r) rows) = []"
  using length_objects_filter [of "\<lambda>r. otp_email r = em \<and> purpose r = purp \<and> is_verified r = False"
     "map (\<lambda>r. if otp_email r = em \<and> purpose r = purp \<and> is_verified r = False
               then r\<lparr>is_verified := True\<rparr> else r) rows"]
  by (simp only: superseded_filter list.size length_0_conv)

lemma create_otp_unverified:
  assumes "create_otp now code em purp v x db = ((pk, otp), db')"
  shows "objects_filter (\<lambda>r. otp_email r = em \<and> purpose r = purp \<and> is_verified r = False)
           (otps db') = [(pk, otp)]"
  using create_otp_result(1,3,4,5) [OF assms]
  by (simp only: create_otp_result(2) [OF assms] objects_filter_append
        superseded_none_unverified) simp

lemma create_otp_latest_unverified:
  assumes "create_otp now code em purp v x db = ((pk, otp), db')"
  shows "latest_unverified em purp db' = Some (pk, otp)"
  by (simp only: latest_unverified_def create_otp_unverified [OF assms] order_by_first.simps
        option.case)

text \<open>
  C4, as stated, fails: \<open>generate_otp\<close> draws six random digits and nothing keeps two
  draws apart. When both issues draw the same code, submitting the first code is
  submitting the live one, and it is accepted.
\<close>

theorem verify_otp_same_code_twice:
  "otp_code (snd (fst (create_otp 0 ''111111'' ''a@b.com'' ''registration'' 5 staged_bob empty_db)))
     = ''111111''
   \<and> is_verified (otps (snd (create_otp 1000000 ''111111'' ''a@b.com'' ''registration'' 5 staged_bob
          (snd (create_otp 0 ''111111'' ''a@b.com'' ''registration'' 5 staged_bob empty_db)))) ! 0)
   \<and> fst (verify_otp 2000000 ''a@b.com'' ''111111'' ''registration''
          (snd (create_otp 1000000 ''111111'' ''a@b.com'' ''registration'' 5 staged_bob
             (snd (create_otp 0 ''111111'' ''a@b.com'' ''registration'' 5 staged_bob empty_db)))))
        = VerifyOk VerifiedSuccessfully"
  by (simp add: verify_otp_def latest_unverified_def objects_filter_def verify_def is_valid_def
      is_expired_def save_otp_def create_otp_def Let_def timedelta_minutes_def
      staged_bob_def empty_db_def)

text \<open>
  C4, amended. \<open>create_otp\<close> marks every earlier row of the (email, purpose) pair as
  verified and appends the fresh row, which is then the only unverified row of the pair,
  so at any time at most one row of the pair is live. After two issues in a row the first
  row is marked verified; submitting the first code, when it differs from the second, is
  answered with a failure, and submitting the second code within its validity is answered
  with success.
\<close>

theorem create_otp_supersedes:
  assumes i1: "create_otp t_a code_a em purp v x_a db = ((pk_a, otp_a), db_a)"
      and i2: "create_otp t_b code_b em purp v x_b db_a = ((pk_b, otp_b), db_b)"
  shows "(\<forall>i < length (otps db). otp_email (otps db ! i) = em \<and> purpose (otps db ! i) = purp
             \<longrightarrow> is_verified (otps db_a ! i))
       \<and> otps db_a ! length (otps db) = otp_a \<and> \<not> is_verified otp_a
       \<and> objects_filter (\<lambda>r. otp_email r = em \<and> purpose r = purp \<and> is_verified r = False)
            (otps db_a) = [(pk_a, otp_a)]
       \<and> length (filter (\<lambda>r. otp_email r = em \<and> purpose r = purp \<and> is_valid t r) (otps db_a)) \<le> 1
       \<and> is_verified (otps db_b ! pk_a)
       \<and> (code_a \<noteq> code_b \<longrightarrow> (\<exists>m. fst (verify_otp t_v em code_a purp db_b) = VerifyFailed m))
       \<and> (t_v \<le> t_b + timedelta_minutes v \<longrightarrow>
            fst (verify_otp t_v em code_b purp db_b) = VerifyOk VerifiedSuccessfully)"
proof -
  note r1 = create_otp_result [OF i1]
  note r2 = create_otp_result [OF i2]
  have a: "\<forall>i < length (otps db). otp_email (otps db ! i) = em \<and> purpose (otps db ! i) = purp
             \<longrightarrow> is_verified (otps db_a ! i)"
    by (simp add: r1(2) nth_append)
  have b: "otps db_a ! length (otps db) = otp_a"
    by (simp add: r1(2) nth_append)
  have c: "objects_filter (\<lambda>r. otp_email r = em \<and> purpose r = purp \<and> is_verified r = False)
            (otps db_a) = [(pk_a, otp_a)]"
    by (rule create_otp_unverified [OF i1])
  have "length (filter (\<lambda>r. otp_email r = em \<and> purpose r = purp \<and> is_verified r = False)
            (otps db_a)) = 1"
    using length_objects_filter [of "\<lambda>r. otp_email r = em \<and> purpose r = purp \<and> is_verified r = False" "otps db_a"]
    unfolding c by simp
  then have d: "length (filter (\<lambda>r. otp_email r = em \<and> purpose r = purp \<and> is_valid t r) (otps db_a)) \<le> 1"
    using live_is_unverified [of em purp t "otps db_a"] by simp
  have "pk_a < length (otps db_a)" "otps db_a ! pk_a = otp_a"
    using b by (simp_all add: r1(1) r1(2))
  then have e: "is_verified (otps db_b ! pk_a)"
    using r1(3,4) by (simp add: r2(2) nth_append)
  have lu: "latest_unverified em purp db_b = Some (pk_b, otp_b)"
    by (rule create_otp_latest_unverified [OF i2])
  have f: "code_a \<noteq> code_b \<longrightarrow> (\<exists>m. fst (verify_otp t_v em code_a purp db_b) = VerifyFailed m)"
    by (simp add: verify_otp_def lu verify_def Let_def r2(6))
  have g: "t_v \<le> t_b + timedelta_minutes v \<longrightarrow>
            fst (verify_otp t_v em code_b purp db_b) = VerifyOk VerifiedSuccessfully"
    using r2(5) by (simp add: verify_otp_def lu verify_def Let_def is_valid_def is_expired_def r2(6,7,8,9))
  from a b r1(5) c d e f g show ?thesis by (intro conjI)
qed


theorem create_otp_supersedes_witness:
  "''111111'' \<noteq> ''222222'' \<and> (2000000::int) \<le> 1000000 + timedelta_minutes 5
   \<and> (\<exists>m. fst (verify_otp 2000000 ''a@b.com'' ''111111'' ''registration''
          (snd (create_otp 1000000 ''222222'' ''a@b.com'' ''registration'' 5 staged_bob
             (snd (create_otp 0 ''111111'' ''a@b.com'' ''registration'' 5 staged_bob empty_db)))))
        = VerifyFailed m)
   \<and> fst (verify_otp 2000000 ''a@b.com'' ''222222'' ''registration''
          (snd (create_otp 1000000 ''222222'' ''a@b.com'' ''registration'' 5 staged_bob
             (snd (create_otp 0 ''111111'' ''a@b.com'' ''registration'' 5 staged_bob empty_db)))))
        = VerifyOk VerifiedSuccessfully"
proof -
  let ?a = "create_otp 0 ''111111'' ''a@b.com'' ''registration'' 5 staged_bob empty_db"
  let ?b = "create_otp 1000000 ''222222'' ''a@b.com'' ''registration'' 5 staged_bob (snd ?a)"
  have h_a: "?a = ((fst (fst ?a), snd (fst ?a)), snd ?a)" by simp
  have h_b: "?b = ((fst (fst ?b), snd (fst ?b)), snd ?b)" by simp
  have n: "''111111'' \<noteq> ''222222''" by simp
  have t: "(2000000::int) \<le> 1000000 + timedelta_minutes 5" by (simp add: timedelta_minutes_def)
  from create_otp_supersedes [OF h_a h_b, where t_v = 2000000] n t show ?thesis by blast
qed

section \<open>Verify\<close>

text \<open>
  C2. A row with four recorded attempts out of five, not expired, and the right code
  submitted: \<open>verify\<close> counts the call first and tests \<open>attempts < max_attempts\<close> on the
  counted value, so the call is answered "expired or maximum attempts reached" and the
  code is never compared. The call before it, a wrong code on three recorded attempts, had
  announced one remaining attempt.
\<close>

theorem verify_fifth_attempt_rejected:
  "verify_otp 1000000 ''a@b.com'' ''000000'' ''registration''
       (empty_db\<lparr>otps := [pending_otp ''registration'' 3]\<rparr>)
     = (VerifyFailed (InvalidOTP 1), empty_db\<lparr>otps := [pending_otp ''registration'' 4]\<rparr>)
   \<and> \<not> is_expired 1000000 (pending_otp ''registration'' 4)
   \<and> attempts (pending_otp ''registration'' 4) < max_attempts (pending_otp ''registration'' 4)
   \<and> otp_code (pending_otp ''registration'' 4) = ''123456''
   \<and> verify_otp 1000000 ''a@b.com'' ''123456'' ''registration''
       (empty_db\<lparr>otps := [pending_otp ''registration'' 4]\<rparr>)
     = (VerifyFailed ExpiredOrMaxAttempts, empty_db\<lparr>otps := [pending_otp ''registration'' 4]\<rparr>)"
  by (simp add: verify_otp_def latest_unverified_def objects_filter_def verify_def is_valid_def
      is_expired_def save_otp_def pending_otp_def empty_db_def Let_def)





section \<open>Completing a registration\<close>

lemma objects_filter_Nil: "objects_filter P rows = [] \<longleftrightarrow> (\<forall>r\<in>set rows. \<not> P r)"
  using length_objects_filter [of P rows] by (auto simp: filter_empty_conv)

lemma latest_verified_row:
  assumes "latest_verified nf em purp db = Some (pk, r)"
  shows "pk < length (otps db) \<and> otps db ! pk = r \<and> otp_email r = em \<and> purpose r = purp
         \<and> is_verified r"
  using order_by_first_mem [OF assms [unfolded latest_verified_def]]
  by (simp add: objects_filter_mem)

lemma latest_verified_None:
  "latest_verified nf em purp db = None \<longleftrightarrow>
     (\<forall>r\<in>set (otps db). \<not> (otp_email r = em \<and> purpose r = purp \<and> is_verified r))"
  unfolding latest_verified_def order_by_first_None objects_filter_Nil by simp







text \<open>
  The verified flag is also what \<open>create_otp\<close> sets on a superseded row: after two issues
  and no verify call, \<open>create_password\<close> finds the first row and completes the
  registration.
\<close>

lemma create_password_after_supersede:
  "fst (create_password any_password False signup
          (snd (create_otp 1000000 ''222222'' ''a@b.com'' ''registration'' 5 staged_bob
             (snd (create_otp 0 ''111111'' ''a@b.com'' ''registration'' 5 staged_bob empty_db)))))
     = RegistrationCompleted ''bob'' ''a@b.com''"
  by (simp add: create_password_def password_creation_serializer_def create_user_def
        create_profile_def Let_def validate_password_def has_uppercase_def has_number_def
        has_special_def latest_verified_def objects_filter_def create_otp_def
        signup_def empty_db_def staged_bob_def any_password_def normalize_email_def strip_def
        rsplit1_def lower_def lower_char_def is_space_def)

section \<open>Requesting a password reset\<close>

text \<open>
  The two call sites of \<open>send_otp_to_service\<close>: \<open>send_otp\<close> and \<open>resend_otp\<close> pass the
  keywords the function declares, \<open>request_password_reset\<close> passes \<open>otp\<close>,
  \<open>first_name\<close> and \<open>last_name\<close>, which it does not.
\<close>

lemma send_otp_to_service_binds:
  "send_otp_to_service [''email'', ''otp_code'', ''user_data'', ''purpose''] delivery = Inr delivery"
  by (simp add: send_otp_to_service_def)

lemma send_otp_to_service_reset_call:
  "send_otp_to_service [''email'', ''otp'', ''first_name'', ''last_name'', ''purpose''] delivery
     = Inl TypeError"
  by (simp add: send_otp_to_service_def)

lemma request_password_reset_never_sent:
  "fst (request_password_reset now code ip delivery value db) \<noteq> ResetOTPSent masked secs"
  by (simp add: request_password_reset_def send_otp_to_service_reset_call Let_def
      split: sum.splits option.splits prod.splits)

text \<open>
  C5. The identifier \<open>alice\<close> resolves to an account whose profile has the email verified,
  and no password reset code was ever issued for it. \<open>request_password_reset\<close> writes the
  new row (valid for ten minutes), then the call of \<open>send_otp_to_service\<close> raises
  TypeError, and the request is answered with the generic error instead of the masked
  email and the remaining validity.
\<close>

theorem request_password_reset_type_error:
  "validate_identifier ''alice'' alice_db = Inr ''alice''
   \<and> find_user ''alice'' alice_db = Some (0, alice)
   \<and> otps alice_db = []
   \<and> request_password_reset 1000000 ''654321'' (Some ''10.0.0.7'') (True, ''OTP sent successfully'')
        ''alice'' alice_db
      = (ResetRequestError, alice_db\<lparr>otps := [alice_reset_otp False None]\<rparr>)
   \<and> expires_at (alice_reset_otp False None) = 1000000 + timedelta_minutes 10"
  by (simp add: request_password_reset_def validate_identifier_def find_user_def profile_of_def
      first_def objects_filter_def create_otp_def send_otp_to_service_def Let_def
      strip_def lower_def lower_char_def is_space_def timedelta_minutes_def timedelta_seconds_def
      alice_db_def alice_def alice_profile_def alice_reset_otp_def empty_db_def)

section \<open>Resetting the password\<close>

text \<open>
  C6. One password reset code was issued for the account and verified at second 2. A
  first \<open>reset_password\<close> at second 60 succeeds and leaves every password reset row of
  the email marked verified. A second \<open>reset_password\<close> at second 120, with no new code
  issued or verified in between, finds the same verified row, still inside its fifteen
  minutes, and succeeds again: the password is rotated a second time. This does not
  depend on where the database sorts NULL.
\<close>

theorem reset_password_replayed:
  "reset_password any_password False 60000000 (reset_to ''Newpass1!'')
       (alice_db\<lparr>otps := [alice_reset_otp True (Some 2000000)]\<rparr>)
     = (PasswordResetSuccessfully,
        alice_db\<lparr>otps := [alice_reset_otp True (Some 2000000)],
                  users := [alice\<lparr>password := ''Newpass1!''\<rparr>]\<rparr>)
   \<and> reset_password any_password False 120000000 (reset_to ''Other22#'')
       (alice_db\<lparr>otps := [alice_reset_otp True (Some 2000000)],
                  users := [alice\<lparr>password := ''Newpass1!''\<rparr>]\<rparr>)
     = (PasswordResetSuccessfully,
        alice_db\<lparr>otps := [alice_reset_otp True (Some 2000000)],
                  users := [alice\<lparr>password := ''Other22#''\<rparr>]\<rparr>)
   \<and> reset_password any_password True 120000000 (reset_to ''Other22#'')
       (alice_db\<lparr>otps := [alice_reset_otp True (Some 2000000)],
                  users := [alice\<lparr>password := ''Newpass1!''\<rparr>]\<rparr>)
     = (PasswordResetSuccessfully,
        alice_db\<lparr>otps := [alice_reset_otp True (Some 2000000)],
                  users := [alice\<lparr>password := ''Other22#''\<rparr>]\<rparr>)"
  by (simp add: reset_password_def reset_password_serializer_def validate_password_def
      has_uppercase_def has_number_def has_special_def latest_verified_def objects_filter_def
      first_def set_password_def invalidate_reset_otps_def Let_def lower_def lower_char_def
      timedelta_minutes_def any_password_def reset_to_def
      alice_db_def alice_def alice_profile_def alice_reset_otp_def empty_db_def)

section \<open>User login\<close>

lemma get_prep_value_ipv4:
  "CHR '':'' \<notin> set value \<Longrightarrow> get_prep_value clean value = value"
  by (simp add: get_prep_value_def)

text \<open>
  C9. A verified, non-admin account with a profile logs in with the right password from
  10.0.0.7. The login succeeds, the success attempt is recorded and the stored login
  counter goes from 0 to 1, but the stored \<open>last_login_ip\<close> is still NULL: the view sets
  the field on the profile object and \<open>increment_login_count\<close> saves with
  \<open>update_fields=['login_count']\<close> only.
\<close>

theorem user_login_ip_not_saved:
  "user_login no_ipv6 5000000 ''10.0.0.7'' ''agent'' ''alice'' ''Secret1!'' alice_db
     = (LoginSuccessful
          \<lparr>refresh = \<lparr>claim_user_id = 0, claim_username = ''alice'', claim_email = ''a@b.com'',
                      claim_is_admin = False\<rparr>,
           access = \<lparr>claim_user_id = 0, claim_username = ''alice'', claim_email = ''a@b.com'',
                     claim_is_admin = False\<rparr>\<rparr>,
        alice_db\<lparr>profiles := [alice_profile\<lparr>login_count := 1\<rparr>],
                  login_attempts := [\<lparr>username_or_email = ''alice'', attempt_ip = ''10.0.0.7'',
                      success = True, failure_reason = None, attempted_at = 5000000,
                      user_agent = ''agent''\<rparr>]\<rparr>)
   \<and> last_login_ip (profiles (snd (user_login no_ipv6 5000000 ''10.0.0.7'' ''agent'' ''alice''
        ''Secret1!'' alice_db)) ! 0) = None
   \<and> login_count (profiles (snd (user_login no_ipv6 5000000 ''10.0.0.7'' ''agent'' ''alice''
        ''Secret1!'' alice_db)) ! 0) = 1"
  by (simp add: user_login_def is_rate_limited_def objects_get_def objects_filter_def
      authenticate_def profile_of_def first_def increment_login_count_def save_profile_def
      create_login_attempt_def respond_after_def get_prep_value_def
      adapt_ipaddressfield_value_def generate_jwt_tokens_def Let_def no_ipv6_def
      alice_db_def alice_def alice_profile_def empty_db_def)

section \<open>The rate limiter\<close>

text \<open>
  A client that spells a stored IPv6 address differently is counted with it: the lookup
  compares the canonical spelling.
\<close>

lemma is_rate_limited_other_spelling:
  assumes "clean ''2001:0DB8:0:0:0:0:0:1'' = Some ''2001:db8::1''"
  shows "is_rate_limited clean 6000000 ''alice'' ''2001:0DB8:0:0:0:0:0:1'' 5 15
           (alice_db\<lparr>login_attempts := map (failed_attempt ''mallory'' ''2001:db8::1'')
                                             [1000000, 2000000, 3000000, 4000000, 5000000]\<rparr>)"
  using assms
  by (simp add: is_rate_limited_def objects_filter_def Let_def timedelta_minutes_def
      get_prep_value_def adapt_ipaddressfield_value_def failed_attempt_def alice_db_def
      empty_db_def)

text \<open>
  C8. With the defaults (5 attempts, 15 minutes) \<open>is_rate_limited\<close> holds exactly when at
  least five failed attempts not older than fifteen minutes carry the caller's IP (the
  address as the column stores it), or at least five carry the submitted identifier.
  When it holds, \<open>user_login\<close> answers "too many attempts" at once: no user is looked up,
  no password is checked and the database, the attempt ledger included, is left as it
  was. When it does not hold, the answer is never "too many attempts".
\<close>

theorem is_rate_limited_gate:
  "(is_rate_limited clean now ident ip 5 15 db \<longleftrightarrow>
      5 \<le> card {i. i < length (login_attempts db)
                   \<and> Some (attempt_ip (login_attempts db ! i))
                       = adapt_ipaddressfield_value (get_prep_value clean ip)
                   \<and> \<not> success (login_attempts db ! i)
                   \<and> now - attempted_at (login_attempts db ! i) \<le> 15 * 60 * 1000000}
    \<or> 5 \<le> card {i. i < length (login_attempts db)
                   \<and> username_or_email (login_attempts db ! i) = ident
                   \<and> \<not> success (login_attempts db ! i)
                   \<and> now - attempted_at (login_attempts db ! i) \<le> 15 * 60 * 1000000})
   \<and> (is_rate_limited clean now ident ip 5 15 db \<longrightarrow>
        user_login clean now ip agent ident pw db = (TooManyAttempts, db))
   \<and> (\<not> is_rate_limited clean now ident ip 5 15 db \<longrightarrow>
        fst (user_login clean now ip agent ident pw db) \<noteq> TooManyAttempts)"
proof -
  have w: "\<And>a. (now - timedelta_minutes 15 \<le> attempted_at a) = (now - attempted_at a \<le> 15 * 60 * 1000000)"
    by (auto simp: timedelta_minutes_def)
  have a: "is_rate_limited clean now ident ip 5 15 db \<longleftrightarrow>
      5 \<le> card {i. i < length (login_attempts db)
                   \<and> Some (attempt_ip (login_attempts db ! i))
                       = adapt_ipaddressfield_value (get_prep_value clean ip)
                   \<and> \<not> success (login_attempts db ! i)
                   \<and> now - attempted_at (login_attempts db ! i) \<le> 15 * 60 * 1000000}
    \<or> 5 \<le> card {i. i < length (login_attempts db)
                   \<and> username_or_email (login_attempts db ! i) = ident
                   \<and> \<not> success (login_attempts db ! i)
                   \<and> now - attempted_at (login_attempts db ! i) \<le> 15 * 60 * 1000000}"
    by (simp add: is_rate_limited_def Let_def length_objects_filter length_filter_conv_card w)
  have b: "is_rate_limited clean now ident ip 5 15 db \<longrightarrow>
        user_login clean now ip agent ident pw db = (TooManyAttempts, db)"
    by (simp add: user_login_def)
  have r: "\<And>created response before. response \<noteq> TooManyAttempts \<Longrightarrow>
        fst (respond_after created response before) \<noteq> TooManyAttempts"
    by (simp add: respond_after_def split: sum.splits)
  have c: "\<not> is_rate_limited clean now ident ip 5 15 db \<longrightarrow>
        fst (user_login clean now ip agent ident pw db) \<noteq> TooManyAttempts"
    by (simp add: user_login_def Let_def r
        split: get_result.splits option.splits prod.splits)
  from a b c show ?thesis by (intro conjI)
qed

theorem is_rate_limited_gate_witness:
  "is_rate_limited no_ipv6 6000000 ''alice'' ''10.0.0.9'' 5 15 blocked_db
   \<and> user_login no_ipv6 6000000 ''10.0.0.9'' ''agent'' ''alice'' ''Secret1!'' blocked_db
       = (TooManyAttempts, blocked_db)
   \<and> \<not> is_rate_limited no_ipv6 906000000 ''alice'' ''10.0.0.9'' 5 15 blocked_db
   \<and> fst (user_login no_ipv6 906000000 ''10.0.0.9'' ''agent'' ''alice'' ''Secret1!'' blocked_db)
       \<noteq> TooManyAttempts"
proof -
  have lim: "is_rate_limited no_ipv6 6000000 ''alice'' ''10.0.0.9'' 5 15 blocked_db"
    by (simp add: is_rate_limited_def objects_filter_def Let_def timedelta_minutes_def
        get_prep_value_def adapt_ipaddressfield_value_def
        blocked_db_def five_failures_def failed_attempt_def alice_db_def empty_db_def)
  have free: "\<not> is_rate_limited no_ipv6 906000000 ''alice'' ''10.0.0.9'' 5 15 blocked_db"
    by (simp add: is_rate_limited_def objects_filter_def Let_def timedelta_minutes_def
        get_prep_value_def adapt_ipaddressfield_value_def
        blocked_db_def five_failures_def failed_attempt_def alice_db_def empty_db_def)
  from is_rate_limited_gate [where clean = no_ipv6 and now = 6000000 and ident = "''alice''"
         and ip = "''10.0.0.9''" and db = blocked_db and agent = "''agent''"
         and pw = "''Secret1!''"]
       is_rate_limited_gate [where clean = no_ipv6 and now = 906000000 and ident = "''alice''"
         and ip = "''10.0.0.9''" and db = blocked_db and agent = "''agent''"
         and pw = "''Secret1!''"]
       lim free
  show ?thesis by blast
qed

section \<open>Login of an account without a profile\<close>

lemma user_login_no_profile:
  assumes free: "\<not> is_rate_limited clean now ident ip 5 15 db"
      and storable: "adapt_ipaddressfield_value (get_prep_value clean ip) = Some stored"
      and resolves: "(if CHR ''@'' \<in> set ident
                      then objects_get (\<lambda>a. email a = ident) (users db)
                      else objects_get (\<lambda>a. username a = ident) (users db)) = Got (pk, user)"
      and named: "objects_get (\<lambda>a. username a = username user) (users db) = Got (uid, user)"
      and creds: "password user = pw" "is_active user"
      and role: "\<not> is_staff user" "\<not> is_superuser user"
      and bare: "profile_of uid db = None"
  shows "user_login clean now ip agent ident pw db =
           (LoginSuccessful
              \<lparr>refresh = \<lparr>claim_user_id = uid, claim_username = username user,
                          claim_email = email user, claim_is_admin = False\<rparr>,
               access = \<lparr>claim_user_id = uid, claim_username = username user,
                         claim_email = email user, claim_is_admin = False\<rparr>\<rparr>,
            db\<lparr>login_attempts := login_attempts db @
                 [\<lparr>username_or_email = ident, attempt_ip = stored, success = True,
                   failure_reason = None, attempted_at = now, user_agent = agent\<rparr>]\<rparr>)"
  using free storable resolves named creds role bare
  by (simp add: user_login_def authenticate_def Let_def create_login_attempt_def
      respond_after_def generate_jwt_tokens_def)

text \<open>
  C10, as stated, fails: an account without profile that is neither staff nor superuser,
  with the right password, is turned away when five failed attempts from the caller's IP
  lie within the window; \<open>authenticate\<close> turns the right password of an inactive account
  down; and when the caller's address is the empty text (a forwarding header that starts
  with a comma) the success attempt cannot be inserted and the request ends in a server
  error.
\<close>

theorem user_login_without_profile_rate_limited:
  "profile_of 0 (blocked_db\<lparr>profiles := []\<rparr>) = None
   \<and> users (blocked_db\<lparr>profiles := []\<rparr>) = [alice]
   \<and> \<not> is_staff alice \<and> \<not> is_superuser alice \<and> password alice = ''Secret1!''
   \<and> user_login no_ipv6 6000000 ''10.0.0.9'' ''agent'' ''alice'' ''Secret1!''
         (blocked_db\<lparr>profiles := []\<rparr>)
       = (TooManyAttempts, blocked_db\<lparr>profiles := []\<rparr>)
   \<and> fst (user_login no_ipv6 6000000 ''10.0.0.7'' ''agent'' ''alice'' ''Secret1!''
         (empty_db\<lparr>users := [alice\<lparr>is_active := False\<rparr>]\<rparr>))
       = InvalidCredentials
   \<and> user_login no_ipv6 6000000 [] ''agent'' ''alice'' ''Secret1!'' (alice_db\<lparr>profiles := []\<rparr>)
       = (ServerError, alice_db\<lparr>profiles := []\<rparr>)"
  by (simp add: user_login_def is_rate_limited_def objects_filter_def objects_get_def
      authenticate_def create_login_attempt_def respond_after_def get_prep_value_def
      adapt_ipaddressfield_value_def profile_of_def first_def
      Let_def timedelta_minutes_def blocked_db_def five_failures_def failed_attempt_def
      alice_db_def alice_def empty_db_def)

text \<open>
  C10, amended. For an active account that is neither staff nor superuser and has no
  profile row: a \<open>user_login\<close> call that is not rate limited, comes from an address the
  attempt ledger can store (not the empty text), whose identifier resolves to that
  account (the one row \<open>User.objects.get\<close> finds, also under its username) and whose
  password is right, succeeds. No email verification is consulted, the profile table is
  untouched (no counter, no IP), the only write is the success attempt, and the tokens
  carry \<open>is_admin = False\<close>.
\<close>

theorem user_login_without_profile:
  assumes free: "\<not> is_rate_limited clean now ident ip 5 15 db"
      and storable: "adapt_ipaddressfield_value (get_prep_value clean ip) = Some stored"
      and resolves: "(if CHR ''@'' \<in> set ident
                      then objects_get (\<lambda>a. email a = ident) (users db)
                      else objects_get (\<lambda>a. username a = ident) (users db)) = Got (pk, user)"
      and named: "objects_get (\<lambda>a. username a = username user) (users db) = Got (uid, user)"
      and creds: "password user = pw" "is_active user"
      and role: "\<not> is_staff user" "\<not> is_superuser user"
      and bare: "profile_of uid db = None"
  shows "user_login clean now ip agent ident pw db =
           (LoginSuccessful
              \<lparr>refresh = \<lparr>claim_user_id = uid, claim_username = username user,
                          claim_email = email user, claim_is_admin = False\<rparr>,
               access = \<lparr>claim_user_id = uid, claim_username = username user,
                         claim_email = email user, claim_is_admin = False\<rparr>\<rparr>,
            db\<lparr>login_attempts := login_attempts db @
                 [\<lparr>username_or_email = ident, attempt_ip = stored, success = True,
                   failure_reason = None, attempted_at = now, user_agent = agent\<rparr>]\<rparr>)
       \<and> profiles (snd (user_login clean now ip agent ident pw db)) = profiles db
       \<and> users (snd (user_login clean now ip agent ident pw db)) = users db"
  using user_login_no_profile [OF assms, of agent] by simp

theorem user_login_without_profile_witness:
  "\<not> is_rate_limited no_ipv6 5000000 ''alice'' ''10.0.0.7'' 5 15 (alice_db\<lparr>profiles := []\<rparr>)
   \<and> adapt_ipaddressfield_value (get_prep_value no_ipv6 ''10.0.0.7'') = Some ''10.0.0.7''
   \<and> objects_get (\<lambda>a. username a = ''alice'') (users (alice_db\<lparr>profiles := []\<rparr>))
       = Got (0, alice)
   \<and> password alice = ''Secret1!'' \<and> is_active alice
   \<and> \<not> is_staff alice \<and> \<not> is_superuser alice
   \<and> profile_of 0 (alice_db\<lparr>profiles := []\<rparr>) = None
   \<and> user_login no_ipv6 5000000 ''10.0.0.7'' ''agent'' ''alice'' ''Secret1!''
         (alice_db\<lparr>profiles := []\<rparr>)
       = (LoginSuccessful
            \<lparr>refresh = \<lparr>claim_user_id = 0, claim_username = ''alice'',
                        claim_email = ''a@b.com'', claim_is_admin = False\<rparr>,
             access = \<lparr>claim_user_id = 0, claim_username = ''alice'',
                       claim_email = ''a@b.com'', claim_is_admin = False\<rparr>\<rparr>,
          alice_db\<lparr>profiles := [],
               login_attempts := [\<lparr>username_or_email = ''alice'', attempt_ip = ''10.0.0.7'',
                   success = True, failure_reason = None, attempted_at = 5000000,
                   user_agent = ''agent''\<rparr>]\<rparr>)"
proof -
  let ?db = "alice_db\<lparr>profiles := []\<rparr>"
  have free: "\<not> is_rate_limited no_ipv6 5000000 ''alice'' ''10.0.0.7'' 5 15 ?db"
    by (simp add: is_rate_limited_def objects_filter_def Let_def alice_db_def empty_db_def)
  have storable: "adapt_ipaddressfield_value (get_prep_value no_ipv6 ''10.0.0.7'') = Some ''10.0.0.7''"
    by (simp add: adapt_ipaddressfield_value_def get_prep_value_def)
  have named: "objects_get (\<lambda>a. username a = username alice) (users ?db) = Got (0, alice)"
    by (simp add: objects_get_def objects_filter_def alice_db_def alice_def empty_db_def)
  have resolves: "(if CHR ''@'' \<in> set ''alice''
                      then objects_get (\<lambda>a. email a = ''alice'') (users ?db)
                      else objects_get (\<lambda>a. username a = ''alice'') (users ?db)) = Got (0, alice)"
    using named by (simp add: alice_def)
  have creds: "password alice = ''Secret1!''" "is_active alice"
    by (simp_all add: alice_def)
  have role: "\<not> is_staff alice" "\<not> is_superuser alice"
    by (simp_all add: alice_def)
  have bare: "profile_of 0 ?db = None"
    by (simp add: profile_of_def first_def objects_filter_def alice_db_def empty_db_def)
  have nm: "username alice = ''alice''" "email alice = ''a@b.com''"
    by (simp_all add: alice_def)
  have ledger: "login_attempts ?db = []"
    by (simp add: alice_db_def empty_db_def)
  from user_login_without_profile [OF free storable resolves named creds role bare, of "''agent''"]
       free storable named creds role bare nm ledger
  show ?thesis by simp
qed

section \<open>The fifteen-minute window of a password reset\<close>

lemma reset_serializer_expired:
  assumes sel: "latest_verified nf (rp_email req) ''password_reset'' db = Some (pk, r)"
      and at: "verified_at r = Some t" and late: "now - t > timedelta_minutes 15"
  shows "reset_password_serializer pv nf now req db =
     (case validate_password pv (rp_new_password req) of
        Some e \<Rightarrow> Inl (Inl (NewPasswordFieldError e))
      | None \<Rightarrow> if rp_new_password req \<noteq> rp_confirm_password req
                then Inl (Inl ResetPasswordsDoNotMatch) else Inl (Inl ResetSessionExpired))"
  using assms by (simp add: reset_password_serializer_def split: option.splits)

lemma reset_password_expired_session:
  assumes sel: "latest_verified nf (rp_email req) ''password_reset'' db = Some (pk, r)"
      and at: "verified_at r = Some t" and late: "now - t > timedelta_minutes 15"
  shows "snd (reset_password pv nf now req db) = db
       \<and> fst (reset_password pv nf now req db) \<noteq> PasswordResetSuccessfully
       \<and> (validate_password pv (rp_new_password req) = None \<and>
            rp_new_password req = rp_confirm_password req \<longrightarrow>
            fst (reset_password pv nf now req db) = ResetSessionExpired)"
proof -
  let ?err = "case validate_password pv (rp_new_password req) of
                Some e \<Rightarrow> NewPasswordFieldError e
              | None \<Rightarrow> if rp_new_password req \<noteq> rp_confirm_password req
                        then ResetPasswordsDoNotMatch else ResetSessionExpired"
  have "reset_password_serializer pv nf now req db = Inl (Inl ?err)"
    unfolding reset_serializer_expired [OF assms] by (simp split: option.splits)
  then have res: "reset_password pv nf now req db = (?err, db)"
    by (simp only: reset_password_def sum.case)
  have "?err \<noteq> PasswordResetSuccessfully"
    by (simp split: option.splits)
  moreover have "validate_password pv (rp_new_password req) = None \<and>
            rp_new_password req = rp_confirm_password req \<longrightarrow> ?err = ResetSessionExpired"
    by (simp split: option.splits)
  ultimately show ?thesis unfolding res by simp
qed

lemma set_password_row:
  "uid < length (users db) \<Longrightarrow>
     password (users (invalidate_reset_otps em (set_password uid pw db)) ! uid) = pw"
  by (simp add: invalidate_reset_otps_def set_password_def)

lemma mark_verified_all:
  assumes mem: "r \<in> set (map (\<lambda>r. if otp_email r = em \<and> purpose r = purp
                       then r\<lparr>is_verified := True\<rparr> else r) rows)"
      and key: "otp_email r = em" "purpose r = purp"
  shows "is_verified r"
proof -
  from mem obtain r0 where r0: "r = (if otp_email r0 = em \<and> purpose r0 = purp
                       then r0\<lparr>is_verified := True\<rparr> else r0)"
    unfolding set_map image_iff by blast
  show ?thesis
  proof (cases "otp_email r0 = em \<and> purpose r0 = purp")
    case True
    with r0 have "r = r0\<lparr>is_verified := True\<rparr>" by simp
    then show ?thesis by simp
  next
    case False
    with r0 have "r = r0" by simp
    with key False show ?thesis by simp
  qed
qed

lemma invalidate_reset_otps_all:
  "r \<in> set (otps (invalidate_reset_otps em db)) \<Longrightarrow> otp_email r = em \<Longrightarrow>
     purpose r = ''password_reset'' \<Longrightarrow> is_verified r"
  unfolding invalidate_reset_otps_def using mark_verified_all [of r em "''password_reset''" "otps db"]
  by simp

lemma reset_password_in_window:
  assumes strong: "validate_password pv (rp_new_password req) = None"
      and confirmed: "rp_new_password req = rp_confirm_password req"
      and sel: "latest_verified nf (rp_email req) ''password_reset'' db = Some (pk, r)"
      and at: "verified_at r = Some t" and recent: "now - t \<le> timedelta_minutes 15"
      and lowercase: "lower (rp_email req) = rp_email req"
      and registered: "first (objects_filter (\<lambda>a. email a = rp_email req) (users db)) = Some (uid, user)"
  shows "reset_password pv nf now req db =
           (PasswordResetSuccessfully,
            invalidate_reset_otps (rp_email req) (set_password uid (rp_new_password req) db))"
  using assms
  by (simp add: reset_password_def reset_password_serializer_def Let_def)

lemma first_row:
  assumes "first (objects_filter P rows) = Some (pk, r)"
  shows "pk < length rows \<and> rows ! pk = r \<and> P r"
proof -
  from assms have "(pk, r) \<in> set (objects_filter P rows)"
    by (cases "objects_filter P rows") (auto simp: first_def)
  then show ?thesis by (simp add: objects_filter_mem)
qed

text \<open>
  The row the query selects is one that no verified row of the email precedes.
\<close>

lemma verified_desc_asym: "verified_desc nf a b \<Longrightarrow> \<not> verified_desc nf b a"
  by (auto simp: verified_desc_def split: option.splits)

lemma verified_desc_negtrans:
  "verified_desc nf a c \<Longrightarrow> verified_desc nf a b \<or> verified_desc nf b c"
  by (auto simp: verified_desc_def split: option.splits)

lemma order_by_verified_first_max:
  "order_by_first (verified_desc nf) q = Some x \<Longrightarrow> y \<in> set q \<Longrightarrow>
     \<not> verified_desc nf (snd y) (snd x)"
proof (induction q arbitrary: x)
  case Nil
  then show ?case by simp
next
  case (Cons z q)
  show ?case
  proof (cases "order_by_first (verified_desc nf) q")
    case None
    then have "q = []" by (simp add: order_by_first_None)
    with Cons.prems None show ?thesis
      by (auto dest: verified_desc_asym)
  next
    case (Some b)
    note best = Cons.IH [OF Some]
    show ?thesis
    proof (cases "verified_desc nf (snd b) (snd z)")
      case True
      with Some Cons.prems(1) have x: "x = b" by simp
      show ?thesis
      proof (cases "y = z")
        case True
        with \<open>verified_desc nf (snd b) (snd z)\<close> x show ?thesis
          by (auto dest: verified_desc_asym)
      next
        case False
        with Cons.prems(2) have "y \<in> set q" by simp
        with best x show ?thesis by simp
      qed
    next
      case False
      with Some Cons.prems(1) have x: "x = z" by simp
      show ?thesis
      proof (cases "y = z")
        case True
        with x show ?thesis by (auto dest: verified_desc_asym)
      next
        case yq: False
        with Cons.prems(2) have "y \<in> set q" by simp
        then have "\<not> verified_desc nf (snd y) (snd b)" by (rule best)
        with False x show ?thesis
          using verified_desc_negtrans [of nf "snd y" "snd z" "snd b"] by blast
      qed
    qed
  qed
qed

lemma latest_verified_max:
  assumes sel: "latest_verified nf em purp db = Some (pk, r)"
      and row: "x \<in> set (otps db)" "otp_email x = em" "purpose x = purp" "is_verified x"
  shows "\<not> verified_desc nf x r"
proof -
  from row(1) obtain i where "i < length (otps db)" "otps db ! i = x"
    by (auto simp: in_set_conv_nth)
  with row(2-4) have "(i, x) \<in> set (objects_filter
      (\<lambda>r. otp_email r = em \<and> purpose r = purp \<and> is_verified r = True) (otps db))"
    by (simp add: objects_filter_mem)
  from order_by_verified_first_max [OF sel [unfolded latest_verified_def] this]
  show ?thesis by simp
qed

lemma reset_password_no_row:
  assumes "latest_verified nf (rp_email req) ''password_reset'' db = None"
  shows "snd (reset_password pv nf now req db) = db
       \<and> fst (reset_password pv nf now req db) \<noteq> PasswordResetSuccessfully"
  using assms
  by (simp add: reset_password_def reset_password_serializer_def split: option.splits)

lemma reset_password_null_timestamp:
  assumes "latest_verified nf (rp_email req) ''password_reset'' db = Some (pk, r)"
      and "verified_at r = None"
  shows "snd (reset_password pv nf now req db) = db
       \<and> fst (reset_password pv nf now req db) \<noteq> PasswordResetSuccessfully
       \<and> (validate_password pv (rp_new_password req) = None \<and>
            rp_new_password req = rp_confirm_password req \<longrightarrow>
            fst (reset_password pv nf now req db) = ResetError)"
  using assms
  by (simp add: reset_password_def reset_password_serializer_def split: option.splits)

lemma reset_password_fails:
  assumes old: "\<forall>x\<in>set (otps db). otp_email x = rp_email req \<and> purpose x = ''password_reset''
                   \<and> is_verified x \<longrightarrow>
                   (\<forall>t. verified_at x = Some t \<longrightarrow> now - t > timedelta_minutes 15)"
  shows "snd (reset_password pv nf now req db) = db
       \<and> fst (reset_password pv nf now req db) \<noteq> PasswordResetSuccessfully"
proof (cases "latest_verified nf (rp_email req) ''password_reset'' db")
  case None
  then show ?thesis by (rule reset_password_no_row)
next
  case (Some a)
  obtain pk r where a: "a = (pk, r)" by (cases a)
  note sel = Some [unfolded a]
  show ?thesis
  proof (cases "verified_at r")
    case None
    from reset_password_null_timestamp [OF sel None] show ?thesis by blast
  next
    case (Some t)
    from latest_verified_row [OF sel] have "r \<in> set (otps db)" "otp_email r = rp_email req"
      "purpose r = ''password_reset''" "is_verified r"
      by (auto simp: in_set_conv_nth)
    with old Some have "now - t > timedelta_minutes 15" by blast
    from reset_password_expired_session [OF sel Some this] show ?thesis by blast
  qed
qed

lemma latest_verified_recent:
  assumes row: "x \<in> set (otps db)" "otp_email x = em" "purpose x = purp" "is_verified x"
      and at: "verified_at x = Some s"
      and nulls: "nf \<longrightarrow> (\<forall>y\<in>set (otps db). otp_email y = em \<and> purpose y = purp
                      \<and> is_verified y \<longrightarrow> verified_at y \<noteq> None)"
  shows "\<exists>pk r u. latest_verified nf em purp db = Some (pk, r) \<and> verified_at r = Some u \<and> s \<le> u"
proof -
  from row have "latest_verified nf em purp db \<noteq> None"
    unfolding latest_verified_None by blast
  then obtain pk r where sel: "latest_verified nf em purp db = Some (pk, r)"
    by (cases "latest_verified nf em purp db") auto
  from latest_verified_max [OF sel row] have best: "\<not> verified_desc nf x r" .
  from latest_verified_row [OF sel] have r: "r \<in> set (otps db)" "otp_email r = em"
      "purpose r = purp" "is_verified r"
    by (auto simp: in_set_conv_nth)
  show ?thesis
  proof (cases "verified_at r")
    case None
    with best at have nf by (simp add: verified_desc_def)
    with nulls r have "verified_at r \<noteq> None" by blast
    with None show ?thesis by simp
  next
    case (Some u)
    with best at have "s \<le> u" by (simp add: verified_desc_def)
    with sel Some show ?thesis by blast
  qed
qed

lemma reset_password_selected_expired:
  assumes sel: "latest_verified nf (rp_email req) ''password_reset'' db = Some (pk, r)"
      and at: "verified_at r = Some t" and late: "now - t > timedelta_minutes 15"
  shows "is_verified r
       \<and> snd (reset_password pv nf now req db) = db
       \<and> fst (reset_password pv nf now req db) \<noteq> PasswordResetSuccessfully
       \<and> (validate_password pv (rp_new_password req) = None
            \<and> rp_new_password req = rp_confirm_password req \<longrightarrow>
          fst (reset_password pv nf now req db) = ResetSessionExpired)"
proof -
  from latest_verified_row [OF sel] have "is_verified r" by simp
  with reset_password_expired_session [OF sel at late] show ?thesis by blast
qed

lemma reset_password_recent:
  assumes row: "x \<in> set (otps db)" "otp_email x = rp_email req"
        "purpose x = ''password_reset''" "is_verified x"
      and at: "verified_at x = Some s" and recent: "now - s \<le> timedelta_minutes 15"
      and nulls: "nf \<longrightarrow> (\<forall>y\<in>set (otps db). otp_email y = rp_email req
                      \<and> purpose y = ''password_reset'' \<and> is_verified y \<longrightarrow>
                      verified_at y \<noteq> None)"
      and strong: "validate_password pv (rp_new_password req) = None"
      and confirmed: "rp_new_password req = rp_confirm_password req"
      and lowercase: "lower (rp_email req) = rp_email req"
      and registered: "first (objects_filter (\<lambda>a. email a = rp_email req) (users db))
                         = Some (uid, user)"
  shows "reset_password pv nf now req db =
        (PasswordResetSuccessfully,
         invalidate_reset_otps (rp_email req) (set_password uid (rp_new_password req) db))
      \<and> password (users (snd (reset_password pv nf now req db)) ! uid) = rp_new_password req
      \<and> (\<forall>y\<in>set (otps (snd (reset_password pv nf now req db))).
            otp_email y = rp_email req \<and> purpose y = ''password_reset'' \<longrightarrow> is_verified y)"
proof -
  from latest_verified_recent [OF row at nulls] obtain k q u
    where sel: "latest_verified nf (rp_email req) ''password_reset'' db = Some (k, q)"
      and atq: "verified_at q = Some u" and le: "s \<le> u"
    by blast
  from le recent have inside: "now - u \<le> timedelta_minutes 15" by simp
  have res: "reset_password pv nf now req db =
      (PasswordResetSuccessfully,
       invalidate_reset_otps (rp_email req) (set_password uid (rp_new_password req) db))"
    by (rule reset_password_in_window [OF strong confirmed sel atq inside lowercase registered])
  from registered have "uid < length (users db)"
    using first_row [of "\<lambda>a. email a = rp_email req" "users db" uid user] by blast
  then have pw: "password (users (snd (reset_password pv nf now req db)) ! uid)
      = rp_new_password req"
    unfolding res by (simp add: set_password_row)
  have all: "\<forall>y\<in>set (otps (snd (reset_password pv nf now req db))).
          otp_email y = rp_email req \<and> purpose y = ''password_reset'' \<longrightarrow> is_verified y"
    unfolding res using invalidate_reset_otps_all by simp
  from res pw all show ?thesis by (intro conjI)
qed

text \<open>
  C7, as stated, fails. (1) A password reset code issued through \<open>create_otp\<close> for an
  address that has no account (the registration endpoint accepts the purpose
  \<open>password_reset\<close>) and verified through \<open>verify_otp\<close> two seconds later leaves a row
  verified well inside the fifteen minutes; \<open>reset_password\<close> with a strong, confirmed
  password then answers "user not found". (2) For an account whose stored email has a
  capital in its local part, the serializer finds the verified row under the address as
  given while the view looks again under the lowercased address and answers "not
  verified". (3) Alice requests a reset at second 0 and again at second 31: the second
  request supersedes the first row, which is now marked verified without a verification
  time. She verifies the second code at second 42. On a database that sorts NULL first in
  a descending order, \<open>order_by('-verified_at').first()\<close> selects the superseded row,
  the subtraction \<open>timezone.now() - otp.verified_at\<close> raises, and \<open>reset_password\<close> at
  second 60, eighteen seconds after the verification, answers with the generic error.
\<close>

theorem reset_password_without_account:
  "verify_otp 2000000 ''a@b.com'' ''123456'' ''password_reset''
       (snd (create_otp 0 ''123456'' ''a@b.com'' ''password_reset'' 5 staged_bob empty_db))
     = (VerifyOk VerifiedSuccessfully,
        empty_db\<lparr>otps := [(snd (fst (create_otp 0 ''123456'' ''a@b.com'' ''password_reset'' 5
                                      staged_bob empty_db)))
                             \<lparr>attempts := 1, is_verified := True, verified_at := Some 2000000\<rparr>]\<rparr>)
   \<and> validate_password any_password ''Newpass1!'' = None
   \<and> (60000000::int) - 2000000 \<le> timedelta_minutes 15
   \<and> reset_password any_password False 60000000 (reset_to ''Newpass1!'')
         (snd (verify_otp 2000000 ''a@b.com'' ''123456'' ''password_reset''
            (snd (create_otp 0 ''123456'' ''a@b.com'' ''password_reset'' 5 staged_bob empty_db))))
       = (UserNotFound,
          snd (verify_otp 2000000 ''a@b.com'' ''123456'' ''password_reset''
            (snd (create_otp 0 ''123456'' ''a@b.com'' ''password_reset'' 5 staged_bob empty_db))))
   \<and> reset_password any_password False 60000000
         ((reset_to ''Newpass1!'')\<lparr>rp_email := ''Al@b.com''\<rparr>)
         (empty_db\<lparr>users := [alice\<lparr>email := ''Al@b.com''\<rparr>], profiles := [alice_profile],
            otps := [(alice_reset_otp True (Some 2000000))\<lparr>otp_email := ''Al@b.com''\<rparr>]\<rparr>)
       = (ResetNotVerified,
          empty_db\<lparr>users := [alice\<lparr>email := ''Al@b.com''\<rparr>], profiles := [alice_profile],
            otps := [(alice_reset_otp True (Some 2000000))\<lparr>otp_email := ''Al@b.com''\<rparr>]\<rparr>)
   \<and> request_password_reset 0 ''111111'' (Some ''10.0.0.7'') (True, ''OTP sent successfully'')
        ''alice'' alice_db
     = (ResetRequestError,
        alice_db\<lparr>otps := [(alice_reset_otp False None)
                             \<lparr>otp_code := ''111111'', created_at := 0, expires_at := 600000000\<rparr>]\<rparr>)
   \<and> request_password_reset 31000000 ''222222'' (Some ''10.0.0.7'') (True, ''OTP sent successfully'')
        ''alice''
        (alice_db\<lparr>otps := [(alice_reset_otp False None)
                             \<lparr>otp_code := ''111111'', created_at := 0, expires_at := 600000000\<rparr>]\<rparr>)
     = (ResetRequestError,
        alice_db\<lparr>otps := [(alice_reset_otp False None)
                             \<lparr>otp_code := ''111111'', created_at := 0, expires_at := 600000000,
                              is_verified := True\<rparr>,
                           (alice_reset_otp False None)
                             \<lparr>otp_code := ''222222'', created_at := 31000000,
                              expires_at := 631000000\<rparr>]\<rparr>)
   \<and> verify_reset_otp 42000000 ''a@b.com'' ''222222''
        (alice_db\<lparr>otps := [(alice_reset_otp False None)
                             \<lparr>otp_code := ''111111'', created_at := 0, expires_at := 600000000,
                              is_verified := True\<rparr>,
                           (alice_reset_otp False None)
                             \<lparr>otp_code := ''222222'', created_at := 31000000,
                              expires_at := 631000000\<rparr>]\<rparr>)
     = (ResetOTPVerified,
        alice_db\<lparr>otps := [(alice_reset_otp False None)
                             \<lparr>otp_code := ''111111'', created_at := 0, expires_at := 600000000,
                              is_verified := True\<rparr>,
                           (alice_reset_otp True (Some 42000000))
                             \<lparr>otp_code := ''222222'', created_at := 31000000,
                              expires_at := 631000000\<rparr>]\<rparr>)
   \<and> (60000000::int) - 42000000 \<le> timedelta_minutes 15
   \<and> reset_password any_password True 60000000 (reset_to ''Newpass1!'')
        (alice_db\<lparr>otps := [(alice_reset_otp False None)
                             \<lparr>otp_code := ''111111'', created_at := 0, expires_at := 600000000,
                              is_verified := True\<rparr>,
                           (alice_reset_otp True (Some 42000000))
                             \<lparr>otp_code := ''222222'', created_at := 31000000,
                              expires_at := 631000000\<rparr>]\<rparr>)
     = (ResetError,
        alice_db\<lparr>otps := [(alice_reset_otp False None)
                             \<lparr>otp_code := ''111111'', created_at := 0, expires_at := 600000000,
                              is_verified := True\<rparr>,
                           (alice_reset_otp True (Some 42000000))
                             \<lparr>otp_code := ''222222'', created_at := 31000000,
                              expires_at := 631000000\<rparr>]\<rparr>)"
  by (simp add: reset_password_def reset_password_serializer_def validate_password_def
      alice_def alice_profile_def alice_reset_otp_def has_uppercase_def has_number_def
      has_special_def latest_verified_def latest_unverified_def objects_filter_def first_def
      verify_otp_def verify_def is_valid_def is_expired_def save_otp_def create_otp_def Let_def
      lower_def lower_char_def timedelta_minutes_def any_password_def reset_to_def
      staged_bob_def empty_db_def request_password_reset_def validate_identifier_def
      find_user_def profile_of_def verify_reset_otp_def verified_desc_def created_desc_def
      send_otp_to_service_def strip_def is_space_def timedelta_seconds_def alice_db_def)

text \<open>
  C7, amended. (a) If no verified password reset row of the email carries a verification
  time within the last fifteen minutes, \<open>reset_password\<close> fails and changes nothing.
  (b) If the row that \<open>order_by('-verified_at').first()\<close> selects among the verified
  password reset rows of the email was verified more than fifteen minutes ago, that row
  still has \<open>is_verified\<close> set, \<open>reset_password\<close> fails and changes nothing, and the
  failure is the session-expired error when the password is strong and confirmed.
  (c) If some verified password reset row of the email was verified at most fifteen
  minutes ago, the password is strong and confirmed, the email is given in lowercase, an
  account is registered under it and, where the database sorts NULL first in a descending
  order, every verified password reset row of the email carries a verification time, then
  \<open>reset_password\<close> succeeds: the account's password is the new one and every password
  reset row of the email is marked verified.
\<close>

theorem reset_password_window:
  "((\<forall>x\<in>set (otps db). otp_email x = rp_email req \<and> purpose x = ''password_reset''
         \<and> is_verified x \<longrightarrow>
         (\<forall>t. verified_at x = Some t \<longrightarrow> now - t > timedelta_minutes 15)) \<longrightarrow>
      snd (reset_password pv nf now req db) = db
      \<and> fst (reset_password pv nf now req db) \<noteq> PasswordResetSuccessfully)
   \<and> (latest_verified nf (rp_email req) ''password_reset'' db = Some (pk, r)
        \<and> verified_at r = Some t \<and> now - t > timedelta_minutes 15 \<longrightarrow>
      is_verified r
      \<and> snd (reset_password pv nf now req db) = db
      \<and> fst (reset_password pv nf now req db) \<noteq> PasswordResetSuccessfully
      \<and> (validate_password pv (rp_new_password req) = None
           \<and> rp_new_password req = rp_confirm_password req \<longrightarrow>
         fst (reset_password pv nf now req db) = ResetSessionExpired))
   \<and> (x \<in> set (otps db) \<and> otp_email x = rp_email req \<and> purpose x = ''password_reset''
        \<and> is_verified x \<and> verified_at x = Some s \<and> now - s \<le> timedelta_minutes 15
        \<and> (nf \<longrightarrow> (\<forall>y\<in>set (otps db). otp_email y = rp_email req
                      \<and> purpose y = ''password_reset'' \<and> is_verified y \<longrightarrow>
                      verified_at y \<noteq> None))
        \<and> validate_password pv (rp_new_password req) = None
        \<and> rp_new_password req = rp_confirm_password req
        \<and> lower (rp_email req) = rp_email req
        \<and> first (objects_filter (\<lambda>a. email a = rp_email req) (users db)) = Some (uid, user) \<longrightarrow>
      reset_password pv nf now req db =
        (PasswordResetSuccessfully,
         invalidate_reset_otps (rp_email req) (set_password uid (rp_new_password req) db))
      \<and> password (users (snd (reset_password pv nf now req db)) ! uid) = rp_new_password req
      \<and> (\<forall>y\<in>set (otps (snd (reset_password pv nf now req db))).
            otp_email y = rp_email req \<and> purpose y = ''password_reset'' \<longrightarrow> is_verified y))"
proof -
  note a = reset_password_fails [of db req now pv nf]
  note b = reset_password_selected_expired [of nf req db pk r t now pv]
  note c = reset_password_recent [of x db req s now nf pv uid user]
  from a b c show ?thesis by blast
qed

theorem reset_password_window_witness:
  "otps (alice_db\<lparr>otps := [alice_reset_otp True (Some 2000000)]\<rparr>)
     = [alice_reset_otp True (Some 2000000)]
   \<and> latest_verified True (rp_email (reset_to ''Newpass1!'')) ''password_reset''
       (alice_db\<lparr>otps := [alice_reset_otp True (Some 2000000)]\<rparr>)
     = Some (0, alice_reset_otp True (Some 2000000))
   \<and> otp_email (alice_reset_otp True (Some 2000000)) = rp_email (reset_to ''Newpass1!'')
   \<and> purpose (alice_reset_otp True (Some 2000000)) = ''password_reset''
   \<and> verified_at (alice_reset_otp True (Some 2000000)) = Some 2000000
   \<and> is_verified (alice_reset_otp True (Some 2000000))
   \<and> (902000001::int) - 2000000 > timedelta_minutes 15
   \<and> validate_password any_password (rp_new_password (reset_to ''Newpass1!'')) = None
   \<and> rp_new_password (reset_to ''Newpass1!'') = rp_confirm_password (reset_to ''Newpass1!'')
   \<and> reset_password any_password True 902000001 (reset_to ''Newpass1!'')
         (alice_db\<lparr>otps := [alice_reset_otp True (Some 2000000)]\<rparr>)
       = (ResetSessionExpired, alice_db\<lparr>otps := [alice_reset_otp True (Some 2000000)]\<rparr>)
   \<and> (60000000::int) - 2000000 \<le> timedelta_minutes 15
   \<and> lower (rp_email (reset_to ''Newpass1!'')) = rp_email (reset_to ''Newpass1!'')
   \<and> first (objects_filter (\<lambda>a. email a = rp_email (reset_to ''Newpass1!''))
         (users (alice_db\<lparr>otps := [alice_reset_otp True (Some 2000000)]\<rparr>))) = Some (0, alice)
   \<and> fst (reset_password any_password True 60000000 (reset_to ''Newpass1!'')
         (alice_db\<lparr>otps := [alice_reset_otp True (Some 2000000)]\<rparr>)) = PasswordResetSuccessfully
   \<and> password (users (snd (reset_password any_password True 60000000 (reset_to ''Newpass1!'')
         (alice_db\<lparr>otps := [alice_reset_otp True (Some 2000000)]\<rparr>))) ! 0) = ''Newpass1!''"
proof -
  let ?row = "alice_reset_otp True (Some 2000000)"
  let ?db = "alice_db\<lparr>otps := [?row]\<rparr>"
  let ?req = "reset_to ''Newpass1!''"
  have rows: "otps ?db = [?row]" by simp
  have sel: "latest_verified True (rp_email ?req) ''password_reset'' ?db = Some (0, ?row)"
    by (simp add: latest_verified_def objects_filter_def reset_to_def alice_reset_otp_def
        alice_db_def empty_db_def)
  have em: "otp_email ?row = rp_email ?req" by (simp add: alice_reset_otp_def reset_to_def)
  have purp: "purpose ?row = ''password_reset''" by (simp add: alice_reset_otp_def)
  have at: "verified_at ?row = Some 2000000" by (simp add: alice_reset_otp_def)
  have v: "is_verified ?row" by (simp add: alice_reset_otp_def)
  have late: "(902000001::int) - 2000000 > timedelta_minutes 15"
    by (simp add: timedelta_minutes_def)
  have recent: "(60000000::int) - 2000000 \<le> timedelta_minutes 15"
    by (simp add: timedelta_minutes_def)
  have strong: "validate_password any_password (rp_new_password ?req) = None"
    by (simp add: validate_password_def has_uppercase_def has_number_def has_special_def
        any_password_def reset_to_def)
  have confirmed: "rp_new_password ?req = rp_confirm_password ?req"
    by (simp add: reset_to_def)
  have lowercase: "lower (rp_email ?req) = rp_email ?req"
    by (simp add: reset_to_def lower_def lower_char_def)
  have registered: "first (objects_filter (\<lambda>a. email a = rp_email ?req) (users ?db)) = Some (0, alice)"
    by (simp add: first_def objects_filter_def reset_to_def alice_db_def alice_def empty_db_def)
  have mem: "?row \<in> set (otps ?db)" by simp
  have old: "\<forall>x\<in>set (otps ?db). otp_email x = rp_email ?req \<and> purpose x = ''password_reset''
         \<and> is_verified x \<longrightarrow>
         (\<forall>t. verified_at x = Some t \<longrightarrow> 902000001 - t > timedelta_minutes 15)"
    using late by (simp add: at)
  have stamped: "True \<longrightarrow> (\<forall>y\<in>set (otps ?db). otp_email y = rp_email ?req
                      \<and> purpose y = ''password_reset'' \<and> is_verified y \<longrightarrow>
                      verified_at y \<noteq> None)"
    by (simp add: at)
  note w = reset_password_window [where pv = any_password and nf = True and req = "?req"
      and db = "?db" and pk = 0 and r = "?row" and t = 2000000 and x = "?row" and s = 2000000
      and uid = 0 and user = alice]
  from w [where now = 902000001] old
  have unchanged: "snd (reset_password any_password True 902000001 ?req ?db) = ?db"
    by blast
  from w [where now = 902000001] sel at late strong confirmed
  have "fst (reset_password any_password True 902000001 ?req ?db) = ResetSessionExpired"
    by blast
  with unchanged
  have expired: "reset_password any_password True 902000001 ?req ?db = (ResetSessionExpired, ?db)"
    by (metis prod.collapse)
  from w [where now = 60000000] mem em purp v at recent stamped strong confirmed lowercase registered
  have res: "reset_password any_password True 60000000 ?req ?db =
        (PasswordResetSuccessfully,
         invalidate_reset_otps (rp_email ?req) (set_password 0 (rp_new_password ?req) ?db))"
    by blast
  from w [where now = 60000000] mem em purp v at recent stamped strong confirmed lowercase registered
  have ok2: "password (users (snd (reset_password any_password True 60000000 ?req ?db)) ! 0)
        = rp_new_password ?req"
    by blast
  have ok1: "fst (reset_password any_password True 60000000 ?req ?db) = PasswordResetSuccessfully"
    by (simp only: res fst_conv)
  have new: "rp_new_password ?req = ''Newpass1!''"
    by (simp add: reset_to_def)
  from rows sel em purp at v late strong confirmed expired recent lowercase registered ok1
    ok2 [unfolded new]
  show ?thesis by (intro conjI)
qed

end
